theory Spec2Isabelle
  imports Main "HOL-Library.AList"
begin

section \<open>Python values, exceptions and dictionaries\<close>

text \<open>
  An exception is kept with its message, the text that \<^verbatim>\<open>str(e)\<close> gives. The source
  distinguishes \<^verbatim>\<open>ImportError\<close> (caught by \<^verbatim>\<open>except ImportError\<close> and by
  \<^verbatim>\<open>except Exception\<close>) from every other exception (caught by \<^verbatim>\<open>except Exception\<close> only).
  A function that can raise returns \<open>exn + 'a\<close>, with \<open>Inl\<close> for the raised exception.
\<close>

datatype exn = ImportError string | Exception string

fun str_exn :: "exn \<Rightarrow> string" where
  "str_exn (ImportError m) = m"
| "str_exn (Exception m) = m"

text \<open>
  The values that travel in the dictionaries of the agent framework
  (\<^verbatim>\<open>Dict[str, Any]\<close>). A dictionary is an association list read with \<open>map_of\<close> and
  written with \<open>AList.update\<close>, which replaces the value of a key in place and appends
  a new key at the end, as a Python dict does. \<open>PObject\<close> is an object of any other
  class, named by its class, that is true as a condition and is not a sequence.
\<close>

datatype pyval =
    PNone
  | PBool bool
  | PInt int
  | PStr string
  | PList "pyval list"
  | PTuple "pyval list"
  | PDict "(string \<times> pyval) list"
  | PObject string

type_synonym pydict = "(string \<times> pyval) list"

text \<open>Truth value of a Python value, as \<^verbatim>\<open>not v\<close> tests it.\<close>

fun truthy :: "pyval \<Rightarrow> bool" where
  "truthy PNone = False"
| "truthy (PBool b) = b"
| "truthy (PInt i) = (i \<noteq> 0)"
| "truthy (PStr s) = (s \<noteq> [])"
| "truthy (PList xs) = (xs \<noteq> [])"
| "truthy (PTuple xs) = (xs \<noteq> [])"
| "truthy (PDict d) = (d \<noteq> [])"
| "truthy (PObject c) = True"

fun type_name :: "pyval \<Rightarrow> string" where
  "type_name PNone = ''NoneType''"
| "type_name (PBool b) = ''bool''"
| "type_name (PInt i) = ''int''"
| "type_name (PStr s) = ''str''"
| "type_name (PList xs) = ''list''"
| "type_name (PTuple xs) = ''tuple''"
| "type_name (PDict d) = ''dict''"
| "type_name (PObject c) = c"

text \<open>
  \<^verbatim>\<open>reversed(v)\<close>: a list or a tuple gives its elements from the last to the first, a
  string its characters, a dict its keys; any other value raises \<^verbatim>\<open>TypeError\<close>.
\<close>

fun reversed :: "pyval \<Rightarrow> exn + pyval list" where
  "reversed (PList xs) = Inr (rev xs)"
| "reversed (PTuple xs) = Inr (rev xs)"
| "reversed (PStr s) = Inr (map (\<lambda>c. PStr [c]) (rev s))"
| "reversed (PDict d) = Inr (map (\<lambda>kv. PStr (fst kv)) (rev d))"
| "reversed v = Inl (Exception ([CHR 0x27] @ type_name v @ [CHR 0x27] @ '' object is not reversible''))"

text \<open>\<^verbatim>\<open>d.get(k, default)\<close>.\<close>

definition dict_get :: "pydict \<Rightarrow> string \<Rightarrow> pyval \<Rightarrow> pyval" where
  "dict_get d k dflt = (case map_of d k of None \<Rightarrow> dflt | Some v \<Rightarrow> v)"

text \<open>A value is a non-empty string.\<close>

fun nonempty_str :: "pyval \<Rightarrow> bool" where
  "nonempty_str (PStr s) = (s \<noteq> [])"
| "nonempty_str v = False"

section \<open>Conversation memory (agent/utils.py)\<close>

text \<open>A message of the chat history: its type (\<^verbatim>\<open>human\<close> or \<^verbatim>\<open>ai\<close>) and its content.\<close>

type_synonym message = "string \<times> string"

record ConversationBufferMemory =
  memory_key :: string
  return_messages :: bool
  output_key :: string
  chat_memory :: "message list"

definition init_memory :: ConversationBufferMemory where
  "init_memory =
     \<lparr>memory_key = ''chat_history'', return_messages = True,
      output_key = ''output'', chat_memory = []\<rparr>"

text \<open>
  The mutable state of the program: the module-level object \<^verbatim>\<open>MEMORY\<close>, created once
  when the module is imported, which every session refers to and never copies.
\<close>

record state =
  MEMORY :: ConversationBufferMemory

definition initial_state :: state where
  "initial_state = \<lparr>MEMORY = init_memory\<rparr>"

text \<open>A reference to a memory object; the program has the one object \<^verbatim>\<open>MEMORY\<close>.\<close>

datatype memory_ref = MEMORY_ref

section \<open>The environment set by agent/config.py\<close>

text \<open>
  \<^verbatim>\<open>set_environment\<close> assigns these variables of the process environment, most of them
  the empty string.
\<close>

definition set_environment :: "(string \<Rightarrow> string option) \<Rightarrow> (string \<Rightarrow> string option)" where
  "set_environment env =
     env(''OPENAI_API_KEY'' \<mapsto> [],
         ''OPENAI_BASE_URL'' \<mapsto> [],
         ''REPLICATE_API_TOKEN'' \<mapsto> [],
         ''GOOGLE_API_KEY'' \<mapsto> [],
         ''WOLFRAM_ALPHA_APPID'' \<mapsto> [],
         ''LANGCHAIN_TRACING_V2'' \<mapsto> ''true'',
         ''LANGCHAIN_PROJECT'' \<mapsto> ''My Project'',
         ''LANGSMITH_API_KEY'' \<mapsto> [],
         ''LANGSMITH_ENDPOINT'' \<mapsto> [],
         ''OWM_API_KEY'' \<mapsto> [])"

section \<open>Tools and the objects of the agent framework\<close>

text \<open>
  A tool as the framework's \<^verbatim>\<open>Tool(name=..., description=..., func=...)\<close> holds it.
  Invoking a tool calls \<open>func\<close>; the framework adds no exception handler around it.
\<close>

record Tool =
  name :: string
  description :: string
  func :: "string \<Rightarrow> exn + pyval"

text \<open>
  Objects that only the framework builds and reads are handles. The parameters given
  to \<^verbatim>\<open>ChatOpenAI\<close> and to \<^verbatim>\<open>AgentExecutor\<close> are records, a keyword that the source does
  not pass being \<open>None\<close>.
\<close>

datatype llm = LanguageModel nat
datatype prompt = PromptTemplate nat
datatype agent = RunnableAgent nat
datatype planner = Planner nat
datatype executor = StepExecutor nat

record chat_params =
  model :: string
  temperature :: int
  streaming :: bool

record AgentExecutor =
  agent :: agent
  tools :: "Tool list"
  handle_parsing_errors :: bool
  max_iterations :: "nat option"
  early_stopping_method :: "string option"
  verbose :: "bool option"
  memory :: "memory_ref option"

record PlanAndExecute =
  pe_planner :: planner
  pe_executor :: executor
  pe_verbose :: bool
  pe_memory :: "memory_ref option"

record PlanAndExecuteWrapper =
  planner :: planner
  executor :: executor
  plan_and_execute :: PlanAndExecute

text \<open>The two kinds of \<^verbatim>\<open>Runnable\<close> that \<^verbatim>\<open>load_agent\<close> returns.\<close>

datatype runnable = Wrapper PlanAndExecuteWrapper | Executor AgentExecutor

text \<open>What the weather provider reports, each number as the text \<^verbatim>\<open>str\<close> gives for it.\<close>

record weather =
  temp :: string
  detailed_status :: string
  humidity :: string
  wind_speed :: string

text \<open>
  Everything outside the repository is a parameter: the process environment, whether an
  optional package imports, what a constructor of the framework returns or raises, and
  what a live call answers. A chain invoked with a memory reads the messages of the
  memory and leaves new ones, so its invocation takes the messages and returns the
  outcome with the messages after the call.
\<close>

record world =
  environ :: "string \<Rightarrow> string option"
  import_ddgs :: "exn option"
  DDGS_text :: "string \<Rightarrow> nat \<Rightarrow> exn + (string \<times> string) list list"
  DuckDuckGoSearchRun :: "exn + Tool"
  hub_pull :: "string \<Rightarrow> exn + prompt"
  create_self_ask_with_search_agent :: "llm option \<Rightarrow> Tool list \<Rightarrow> prompt \<Rightarrow> exn + agent"
  ArxivQueryRun :: "exn + Tool"
  WikipediaQueryRun :: "exn + Tool"
  python_repl_run :: "string \<Rightarrow> exn + pyval"
  LLMMathChain_from_llm :: "llm option \<Rightarrow> exn + (string \<Rightarrow> exn + pyval)"
  pyowm_OWM :: "string \<Rightarrow> exn + (string \<Rightarrow> exn + weather)"
  WolframAlphaQueryRun :: "exn + Tool"
  GoogleSearchRun :: "exn + Tool"
  GoogleSearchRun_deprecated :: "exn + Tool"
  ChatOpenAI :: "chat_params \<Rightarrow> exn + llm"
  load_chat_planner :: "llm \<Rightarrow> exn + planner"
  load_agent_executor :: "llm \<Rightarrow> Tool list \<Rightarrow> exn + executor"
  create_react_agent :: "llm \<Rightarrow> Tool list \<Rightarrow> prompt \<Rightarrow> exn + agent"
  AgentExecutor_invoke ::
    "AgentExecutor \<Rightarrow> message list \<Rightarrow> pyval \<Rightarrow> (exn + pydict) \<times> message list"
  PlanAndExecute_invoke ::
    "PlanAndExecute \<Rightarrow> message list \<Rightarrow> pydict \<Rightarrow> (exn + pydict) \<times> message list"

text \<open>\<^verbatim>\<open>os.environ.get(k)\<close> taken as a condition: the variable is set and not empty.\<close>

definition env_set :: "world \<Rightarrow> string \<Rightarrow> bool" where
  "env_set w k = (case environ w k of None \<Rightarrow> False | Some v \<Rightarrow> v \<noteq> [])"

section \<open>The capabilities defined in agent/tool\_loader.py\<close>

text \<open>\<^verbatim>\<open>"\\n".join(xs)\<close>.\<close>

fun join_lines :: "string list \<Rightarrow> string" where
  "join_lines [] = []"
| "join_lines [x] = x"
| "join_lines (x # y # ys) = x @ [CHR 0x0A] @ join_lines (y # ys)"

text \<open>
  \<^verbatim>\<open>CustomDuckDuckGoSearch.search\<close>: the whole body is inside
  \<^verbatim>\<open>try ... except Exception\<close>, so a failure of the live call becomes the returned text.
\<close>

definition search :: "world \<Rightarrow> string \<Rightarrow> exn + pyval" where
  "search w query =
     (case DDGS_text w query 5 of
        Inr results \<Rightarrow>
          Inr (PStr (join_lines (map (\<lambda>r.
            (case map_of r ''title'' of None \<Rightarrow> ''No title'' | Some t \<Rightarrow> t) @ '': '' @
            (case map_of r ''body'' of None \<Rightarrow> ''No description'' | Some b \<Rightarrow> b)) results)))
      | Inl e \<Rightarrow> Inr (PStr (''Search failed: '' @ str_exn e)))"

text \<open>\<^verbatim>\<open>OpenWeatherMapTool.get_current_weather\<close>, of the tool built on a weather manager.\<close>

definition get_current_weather :: "(string \<Rightarrow> exn + weather) \<Rightarrow> string \<Rightarrow> exn + pyval" where
  "get_current_weather mgr location =
     (case mgr location of
        Inr wt \<Rightarrow>
          Inr (PStr (''Current weather in '' @ location @ '': '' @ temp wt @
            [CHR 0xC3, CHR 0x82, CHR 0xC2, CHR 0xB0] @ ''C, '' @ detailed_status wt @
            '', Humidity: '' @ humidity wt @ ''%, Wind Speed: '' @ wind_speed wt @ '' m/s''))
      | Inl e \<Rightarrow>
          Inr (PStr (''Could not retrieve weather data for '' @ location @ '': '' @ str_exn e)))"

text \<open>\<^verbatim>\<open>WolframAlphaTool._run\<close>, which wraps the \<^verbatim>\<open>_run\<close> of the framework's tool.\<close>

definition WolframAlphaTool_run :: "(string \<Rightarrow> exn + pyval) \<Rightarrow> string \<Rightarrow> exn + pyval" where
  "WolframAlphaTool_run super_run query =
     (case super_run query of
        Inr r \<Rightarrow> Inr r
      | Inl e \<Rightarrow>
          Inr (PStr (''Wolfram Alpha query failed: '' @ str_exn e @
            ''. Please try a different tool or rephrase your query.'')))"

section \<open>load\_tools (agent/tool\_loader.py)\<close>

text \<open>
  A function that prints returns the printed lines with its result. The DuckDuckGo tool:
  the tool built on the \<^verbatim>\<open>ddgs\<close> package; when that import raises \<^verbatim>\<open>ImportError\<close>, the
  tool of the older package, or none when building it raises. Any other exception of the
  first import is not caught.
\<close>

definition ddg_tool :: "world \<Rightarrow> string list \<times> (exn + Tool option)" where
  "ddg_tool w =
     (case import_ddgs w of
        None \<Rightarrow>
          ([], Inr (Some \<lparr>name = ''ddg-search'',
             description = ''Search the web using DuckDuckGo. Input should be a search query.'',
             func = search w\<rparr>))
      | Some (ImportError m) \<Rightarrow>
          (case DuckDuckGoSearchRun w of
             Inr t \<Rightarrow>
               ([''Warning: ddgs package not installed. Please install it with `pip install ddgs`''],
                Inr (Some t))
           | Inl e \<Rightarrow>
               ([''Warning: ddgs package not installed. Please install it with `pip install ddgs`'',
                 ''Warning: Could not initialize DuckDuckGo search tool: '' @ str_exn e],
                Inr None))
      | Some (Exception m) \<Rightarrow> ([], Inl (Exception m)))"

text \<open>
  The self-ask sub-agent, built on every call from the language model that was passed
  (\<open>None\<close> when \<^verbatim>\<open>load_tools\<close> is called without one).
\<close>

definition self_ask_agent :: "world \<Rightarrow> llm option \<Rightarrow> Tool option \<Rightarrow> exn + AgentExecutor" where
  "self_ask_agent w lm ddg =
     (case hub_pull w ''hwchase17/self-ask-with-search'' of
        Inl e \<Rightarrow> Inl e
      | Inr pr \<Rightarrow>
          (let search_tool =
             (case ddg of
                Some search_wrapper \<Rightarrow>
                  \<lparr>name = ''Intermediate Answer'', description = ''Search'',
                   func = func search_wrapper\<rparr>
              | None \<Rightarrow>
                  \<lparr>name = ''Intermediate Answer'', description = ''Search'',
                   func = (\<lambda>x. Inr (PStr ''Search tool not available''))\<rparr>)
           in case create_self_ask_with_search_agent w lm [search_tool] pr of
                Inl e \<Rightarrow> Inl e
              | Inr a \<Rightarrow>
                  Inr \<lparr>agent = a, tools = [search_tool], handle_parsing_errors = True,
                       max_iterations = None, early_stopping_method = None,
                       verbose = None, memory = None\<rparr>))"

text \<open>
  The dictionary literal \<^verbatim>\<open>available_tools\<close>, its entries evaluated in order. The
  calculator chain is built twice from the same model (for \<^verbatim>\<open>func\<close> and for
  \<^verbatim>\<open>coroutine\<close>); both calls have the same outcome.
\<close>

definition base_tools :: "world \<Rightarrow> llm option \<Rightarrow> AgentExecutor \<Rightarrow> exn + (string \<times> Tool) list" where
  "base_tools w lm sa =
     (case ArxivQueryRun w of
        Inl e \<Rightarrow> Inl e
      | Inr arxiv \<Rightarrow>
     (case WikipediaQueryRun w of
        Inl e \<Rightarrow> Inl e
      | Inr wikipedia \<Rightarrow>
     (case LLMMathChain_from_llm w lm of
        Inl e \<Rightarrow> Inl e
      | Inr run \<Rightarrow>
          Inr [(''arxiv'', arxiv),
               (''wikipedia'', wikipedia),
               (''python_repl'',
                \<lparr>name = ''python_repl'',
                 description = ''A Python shell. Use this to execute python commands.'' @
                   '' Input should be a valid python command. If you want to see'' @
                   '' the output of a value, you should print it out with `print(...)`. '',
                 func = python_repl_run w\<rparr>),
               (''llm-math'',
                \<lparr>name = ''Calculator'',
                 description = ''Useful for when you need to answer questions about math.'',
                 func = run\<rparr>),
               (''critical_search'',
                \<lparr>name = ''Self-ask agent'',
                 description = ''A tool to answer complicated questions. '' @
                   ''Useful for when you need to answer questions about current events. '' @
                   ''Input should be a question.'',
                 func = (\<lambda>x. case fst (AgentExecutor_invoke w sa [] (PStr x)) of
                               Inl e \<Rightarrow> Inl e | Inr d \<Rightarrow> Inr (PDict d))\<rparr>)])))"

text \<open>The optional tools. Each block catches every exception of its construction.\<close>

definition add_openweathermap ::
  "world \<Rightarrow> (string \<times> Tool) list \<Rightarrow> string list \<times> (string \<times> Tool) list" where
  "add_openweathermap w avail =
     (case environ w ''OWM_API_KEY'' of
        None \<Rightarrow> ([''Info: OWM_API_KEY not found. OpenWeatherMap tool will not be available.''], avail)
      | Some api_key \<Rightarrow>
          if api_key = [] then
            ([''Info: OWM_API_KEY not found. OpenWeatherMap tool will not be available.''], avail)
          else
            (case pyowm_OWM w api_key of
               Inr mgr \<Rightarrow>
                 ([], AList.update ''openweathermap''
                    \<lparr>name = ''OpenWeatherMap'',
                     description = ''Get current weather information for a specific location. Use this when asked about current weather conditions. Input should be a location name or a city name like '' @
                       [CHR 0x27] @ ''Beijing'' @ [CHR 0x27] @ '' or '' @
                       [CHR 0x27] @ ''New York'' @ [CHR 0x27] @ ''.'',
                     func = get_current_weather mgr\<rparr> avail)
             | Inl (ImportError m) \<Rightarrow>
                 ([''Warning: pyowm package not installed. Please install it with `pip install pyowm`''],
                  avail)
             | Inl (Exception m) \<Rightarrow>
                 ([''Warning: Could not initialize OpenWeatherMap tool: '' @ m], avail)))"

definition add_wolfram_alpha ::
  "world \<Rightarrow> (string \<times> Tool) list \<Rightarrow> string list \<times> (string \<times> Tool) list" where
  "add_wolfram_alpha w avail =
     (if env_set w ''WOLFRAM_ALPHA_APPID'' then
        (case WolframAlphaQueryRun w of
           Inr t \<Rightarrow>
             ([], AList.update ''wolfram-alpha'' (t\<lparr>func := WolframAlphaTool_run (func t)\<rparr>) avail)
         | Inl (ImportError m) \<Rightarrow>
             ([''Warning: wolframalpha package not installed. Please install it with `pip install wolframalpha`''],
              avail)
         | Inl (Exception m) \<Rightarrow>
             ([''Warning: Could not initialize Wolfram Alpha tool: '' @ m], avail))
      else
        ([''Info: WOLFRAM_ALPHA_APPID not found. Wolfram Alpha tool will not be available.''],
         avail))"

definition add_google_search ::
  "world \<Rightarrow> (string \<times> Tool) list \<Rightarrow> string list \<times> (string \<times> Tool) list" where
  "add_google_search w avail =
     (if env_set w ''GOOGLE_API_KEY'' \<and> env_set w ''GOOGLE_CSE_ID'' then
        (case GoogleSearchRun w of
           Inr t \<Rightarrow> ([], AList.update ''google-search'' t avail)
         | Inl (ImportError m) \<Rightarrow>
             (case GoogleSearchRun_deprecated w of
                Inr t \<Rightarrow>
                  ([''Warning: langchain-google-community package not installed. Please install it with `pip install -U langchain-google-community`''],
                   AList.update ''google-search'' t avail)
              | Inl e \<Rightarrow>
                  ([''Warning: langchain-google-community package not installed. Please install it with `pip install -U langchain-google-community`'',
                    ''Warning: Could not initialize Google Search tool: '' @ str_exn e],
                   avail))
         | Inl (Exception m) \<Rightarrow>
             ([''Warning: Could not initialize Google Search tool: '' @ m], avail))
      else
        ([''Info: GOOGLE_API_KEY and/or GOOGLE_CSE_ID not found. Google Search tool will not be available.''],
         avail))"

text \<open>
  Everything of \<^verbatim>\<open>load_tools\<close> before its last loop: the dictionary \<^verbatim>\<open>available_tools\<close>
  as it stands when the requested names are looked up, or the exception that ended the
  call before.
\<close>

definition available_tools ::
  "world \<Rightarrow> llm option \<Rightarrow> string list \<times> (exn + (string \<times> Tool) list)" where
  "available_tools w lm =
     (case ddg_tool w of
        (out0, Inl e) \<Rightarrow> (out0, Inl e)
      | (out0, Inr ddg) \<Rightarrow>
     (case self_ask_agent w lm ddg of
        Inl e \<Rightarrow> (out0, Inl e)
      | Inr sa \<Rightarrow>
     (case base_tools w lm sa of
        Inl e \<Rightarrow> (out0, Inl e)
      | Inr avail0 \<Rightarrow>
          (let avail1 = (case ddg of Some t \<Rightarrow> AList.update ''ddg-search'' t avail0
                                   | None \<Rightarrow> avail0);
               (out1, avail2) = add_openweathermap w avail1;
               (out2, avail3) = add_wolfram_alpha w avail2;
               (out3, avail4) = add_google_search w avail3
           in (out0 @ out1 @ out2 @ out3, Inr avail4)))))"

text \<open>The warning printed for a requested name that is not a key of the dictionary.\<close>

definition warning_not_found :: "string \<Rightarrow> string" where
  "warning_not_found n =
     ''Warning: Tool '' @ [CHR 0x27] @ n @ [CHR 0x27] @ '' not found in available tools.''"

text \<open>
  The last loop: the tool of each requested name that is a key of the dictionary is
  appended to \<^verbatim>\<open>tools\<close>; for any other name the warning is printed.
\<close>

fun requested_tools ::
  "(string \<times> Tool) list \<Rightarrow> string list \<Rightarrow> string list \<times> Tool list \<Rightarrow> string list \<times> Tool list" where
  "requested_tools avail [] acc = acc"
| "requested_tools avail (n # ns) (out, ts) =
     (case map_of avail n of
        Some t \<Rightarrow> requested_tools avail ns (out, ts @ [t])
      | None \<Rightarrow>
          requested_tools avail ns (out @ [warning_not_found n], ts))"

definition load_tools :: "world \<Rightarrow> string list \<Rightarrow> llm option \<Rightarrow> string list \<times> (exn + Tool list)" where
  "load_tools w tool_names lm =
     (case available_tools w lm of
        (out, Inl e) \<Rightarrow> (out, Inl e)
      | (out, Inr avail) \<Rightarrow>
          (case requested_tools avail tool_names ([], []) of
             (out', ts) \<Rightarrow> (out @ out', Inr ts)))"

section \<open>create\_llm and load\_agent (agent/agent.py)\<close>

text \<open>\<^verbatim>\<open>s.startswith(p)\<close>.\<close>

fun startswith :: "string \<Rightarrow> string \<Rightarrow> bool" where
  "startswith s [] = True"
| "startswith [] (p # ps) = False"
| "startswith (c # cs) (p # ps) = (c = p \<and> startswith cs ps)"

definition create_llm :: "world \<Rightarrow> string \<Rightarrow> exn + llm" where
  "create_llm w model_name =
     (if startswith model_name ''gpt-'' then
        ChatOpenAI w \<lparr>model = model_name, temperature = 0, streaming = True\<rparr>
      else if startswith model_name ''Qwen/'' then
        ChatOpenAI w \<lparr>model = model_name, temperature = 0, streaming = True\<rparr>
      else
        ChatOpenAI w \<lparr>model = ''gpt-3.5-turbo'', temperature = 0, streaming = True\<rparr>)"

text \<open>
  \<^verbatim>\<open>load_agent\<close>: the strategy is compared with \<^verbatim>\<open>"plan-and-solve"\<close> only; every other
  string takes the path of the \<^verbatim>\<open>AgentExecutor\<close>.
\<close>

definition load_agent ::
  "world \<Rightarrow> string list \<Rightarrow> string \<Rightarrow> string \<Rightarrow> string list \<times> (exn + runnable)" where
  "load_agent w tool_names strategy model_name =
     (case create_llm w model_name of
        Inl e \<Rightarrow> ([], Inl e)
      | Inr lm \<Rightarrow>
     (case load_tools w tool_names (Some lm) of
        (out, Inl e) \<Rightarrow> (out, Inl e)
      | (out, Inr ts) \<Rightarrow>
          if strategy = ''plan-and-solve'' then
            (case load_chat_planner w lm of
               Inl e \<Rightarrow> (out, Inl e)
             | Inr pl \<Rightarrow>
            (case load_agent_executor w lm ts of
               Inl e \<Rightarrow> (out, Inl e)
             | Inr ex \<Rightarrow>
                 (out, Inr (Wrapper
                   \<lparr>planner = pl, executor = ex,
                    plan_and_execute =
                      \<lparr>pe_planner = pl, pe_executor = ex, pe_verbose = True,
                       pe_memory = Some MEMORY_ref\<rparr>\<rparr>))))
          else
            (case hub_pull w ''hwchase17/react'' of
               Inl e \<Rightarrow> (out, Inl e)
             | Inr pr \<Rightarrow>
            (case create_react_agent w lm ts pr of
               Inl e \<Rightarrow> (out, Inl e)
             | Inr a \<Rightarrow>
                 (out, Inr (Executor
                   \<lparr>agent = a, tools = ts, handle_parsing_errors = True,
                    max_iterations = Some 15, early_stopping_method = Some ''generate'',
                    verbose = Some True, memory = Some MEMORY_ref\<rparr>))))))"

section \<open>Invoking a session\<close>

text \<open>
  A chain bound to \<^verbatim>\<open>MEMORY\<close> runs on the messages that \<^verbatim>\<open>MEMORY\<close> holds at the call and
  leaves its messages there; a chain without memory touches no state.
\<close>

definition with_memory ::
  "(message list \<Rightarrow> 'a \<Rightarrow> (exn + pydict) \<times> message list) \<Rightarrow> memory_ref option \<Rightarrow>
   state \<Rightarrow> 'a \<Rightarrow> (exn + pydict) \<times> state" where
  "with_memory run mem st x =
     (case mem of
        None \<Rightarrow> (fst (run [] x), st)
      | Some MEMORY_ref \<Rightarrow>
          (case run (chat_memory (MEMORY st)) x of
             (r, msgs) \<Rightarrow> (r, st\<lparr>MEMORY := (MEMORY st)\<lparr>chat_memory := msgs\<rparr>\<rparr>)))"

text \<open>
  The fallback text of \<^verbatim>\<open>PlanAndExecuteWrapper.invoke\<close>, a Chinese sentence of 18
  characters ("no answer could be generated, try another question or tool"), given by
  the bytes of its UTF-8 encoding.
\<close>

definition fallback_output :: string where
  "fallback_output =
     [CHR 0xE6, CHR 0x9C, CHR 0xAA, CHR 0xE8, CHR 0x83, CHR 0xBD, CHR 0xE7, CHR 0x94, CHR 0x9F,
      CHR 0xE6, CHR 0x88, CHR 0x90, CHR 0xE7, CHR 0xAD, CHR 0x94, CHR 0xE6, CHR 0xA1, CHR 0x88,
      CHR 0xEF, CHR 0xBC, CHR 0x8C, CHR 0xE8, CHR 0xAF, CHR 0xB7, CHR 0xE5, CHR 0xB0, CHR 0x9D,
      CHR 0xE8, CHR 0xAF, CHR 0x95, CHR 0xE5, CHR 0x85, CHR 0xB6, CHR 0xE4, CHR 0xBB, CHR 0x96,
      CHR 0xE9, CHR 0x97, CHR 0xAE, CHR 0xE9, CHR 0xA2, CHR 0x98, CHR 0xE6, CHR 0x88, CHR 0x96,
      CHR 0xE5, CHR 0xB7, CHR 0xA5, CHR 0xE5, CHR 0x85, CHR 0xB7, CHR 0xE3, CHR 0x80, CHR 0x82]"

text \<open>
  The loop of \<^verbatim>\<open>PlanAndExecuteWrapper.invoke\<close> over the reversed steps: the first step
  that is a dict with the key \<^verbatim>\<open>response\<close> gives \<^verbatim>\<open>result["output"]\<close>, and the loop ends.
\<close>

fun scan_steps :: "pydict \<Rightarrow> pyval list \<Rightarrow> pydict" where
  "scan_steps result [] = result"
| "scan_steps result (PDict step # steps) =
     (case map_of step ''response'' of
        Some r \<Rightarrow> AList.update ''output'' r result
      | None \<Rightarrow> scan_steps result steps)"
| "scan_steps result (step # steps) = scan_steps result steps"

text \<open>The test of the loop: the step is a dict and has the key \<^verbatim>\<open>response\<close>.\<close>

fun has_response :: "pyval \<Rightarrow> bool" where
  "has_response (PDict step) = (map_of step ''response'' \<noteq> None)"
| "has_response step = False"

definition PlanAndExecuteWrapper_invoke ::
  "world \<Rightarrow> PlanAndExecuteWrapper \<Rightarrow> state \<Rightarrow> pydict \<Rightarrow> (exn + pydict) \<times> state" where
  "PlanAndExecuteWrapper_invoke w self st input =
     (let original_question = dict_get input ''input'' (PStr [])
      in case with_memory (PlanAndExecute_invoke w (plan_and_execute self))
                (pe_memory (plan_and_execute self)) st [(''input'', original_question)] of
           (Inl e, st') \<Rightarrow> (Inl e, st')
         | (Inr result, st') \<Rightarrow>
             (case (if (case map_of result ''output'' of None \<Rightarrow> True | Some v \<Rightarrow> \<not> truthy v) then
                      (case map_of result ''intermediate_steps'' of
                         None \<Rightarrow> Inr result
                       | Some steps \<Rightarrow>
                           (case reversed steps of
                              Inl e \<Rightarrow> Inl e
                            | Inr rsteps \<Rightarrow> Inr (scan_steps result rsteps)))
                    else Inr result) of
                Inl e \<Rightarrow> (Inl e, st')
              | Inr result' \<Rightarrow>
                  (Inr [(''output'', dict_get result' ''output'' (PStr fallback_output)),
                        (''intermediate_steps'',
                         dict_get result' ''intermediate_steps'' (PList []))],
                   st')))"

text \<open>
  Invoking what \<^verbatim>\<open>load_agent\<close> returned: the wrapper's own \<^verbatim>\<open>invoke\<close>, or the
  \<^verbatim>\<open>invoke\<close> of the framework's executor, whose result is returned as it is.
\<close>

fun invoke :: "world \<Rightarrow> runnable \<Rightarrow> state \<Rightarrow> pydict \<Rightarrow> (exn + pydict) \<times> state" where
  "invoke w (Wrapper self) st input = PlanAndExecuteWrapper_invoke w self st input"
| "invoke w (Executor ex) st input =
     with_memory (AgentExecutor_invoke w ex) (memory ex) st (PDict input)"

section \<open>The history-clear action (app/app.py)\<close>

text \<open>\<^verbatim>\<open>MEMORY.chat_memory.clear()\<close>: the messages of the shared memory become empty.\<close>

definition chat_memory_clear :: "state \<Rightarrow> state" where
  "chat_memory_clear st = st\<lparr>MEMORY := (MEMORY st)\<lparr>chat_memory := []\<rparr>\<rparr>"

section \<open>Sample worlds\<close>

text \<open>
  A world in which every package is installed and every constructor succeeds, with the
  environment that \<^verbatim>\<open>set_environment\<close> leaves. The calculator chain and the self-ask agent
  reject a missing language model. The executors answer by the question asked.
\<close>

definition sample_world :: world where
  "sample_world =
     \<lparr>environ = set_environment Map.empty,
      import_ddgs = None,
      DDGS_text = (\<lambda>q n. Inr [[(''title'', q), (''body'', ''a page'')]]),
      DuckDuckGoSearchRun = Inl (ImportError ''No module named duckduckgo_search''),
      hub_pull = (\<lambda>p. Inr (PromptTemplate 0)),
      create_self_ask_with_search_agent =
        (\<lambda>lm ts pr. case lm of
           None \<Rightarrow> Inl (Exception ''NoneType object has no attribute bind'')
         | Some l \<Rightarrow> Inr (RunnableAgent 0)),
      ArxivQueryRun =
        Inr \<lparr>name = ''arxiv'', description = ''Search arxiv.org'',
             func = (\<lambda>q. Inr (PStr ''No good Arxiv Result was found''))\<rparr>,
      WikipediaQueryRun =
        Inr \<lparr>name = ''wikipedia'', description = ''Search Wikipedia'',
             func = (\<lambda>q. Inr (PStr ''No good Wikipedia Search Result was found''))\<rparr>,
      python_repl_run = (\<lambda>c. Inr (PStr [])),
      LLMMathChain_from_llm =
        (\<lambda>lm. case lm of
           None \<Rightarrow> Inl (Exception ''llm: none is not an allowed value'')
         | Some l \<Rightarrow> Inr (\<lambda>q. Inl (Exception ''unknown format from LLM''))),
      pyowm_OWM = (\<lambda>k. Inr (\<lambda>loc. Inl (Exception ''Unable to find the resource''))),
      WolframAlphaQueryRun =
        Inr \<lparr>name = ''wolfram_alpha'', description = ''Query Wolfram Alpha'',
             func = (\<lambda>q. Inl (Exception ''Invalid appid''))\<rparr>,
      GoogleSearchRun = Inl (ImportError ''No module named langchain_google_community''),
      GoogleSearchRun_deprecated = Inl (Exception ''did not find google_api_key''),
      ChatOpenAI = (\<lambda>p. Inr (LanguageModel 0)),
      load_chat_planner = (\<lambda>l. Inr (Planner 0)),
      load_agent_executor = (\<lambda>l ts. Inr (StepExecutor 0)),
      create_react_agent = (\<lambda>l ts pr. Inr (RunnableAgent 1)),
      AgentExecutor_invoke =
        (\<lambda>ex msgs x.
           (Inr [(''input'', x),
                 (''output'', if x = PDict [(''input'', PStr ''2+2'')] then PStr ''4'' else PStr [])],
            msgs @ [(''human'', ''a question''), (''ai'', ''an answer'')])),
      PlanAndExecute_invoke =
        (\<lambda>pe msgs d.
           (if d = [(''input'', PStr ''2+2'')] then
              Inr (d @ [(''output'', PStr ''4'')])
            else if d = [(''input'', PStr ''answer nothing'')] then
              Inr (d @ [(''output'', PStr [])])
            else if d = [(''input'', PStr ''say nothing'')] then
              Inr d
            else if d = [(''input'', PStr ''capital of France?'')] then
              Inr (d @ [(''intermediate_steps'',
                         PList [PDict [(''response'', PStr ''Paris'')],
                                PDict [(''response'', PStr [])]])])
            else
              Inr (d @ [(''intermediate_steps'', PList [PDict [(''response'', PStr [])]])]),
            msgs @ [(''human'', ''a question''), (''ai'', ''an answer'')]))\<rparr>"

text \<open>The same world with the keys of the weather and Wolfram Alpha services set.\<close>

definition keyed_world :: world where
  "keyed_world =
     sample_world\<lparr>environ :=
       (set_environment Map.empty)(''OWM_API_KEY'' \<mapsto> ''owm-key'',
                                   ''WOLFRAM_ALPHA_APPID'' \<mapsto> ''wolfram-id'')\<rparr>"

text \<open>
  The sample world with a chat client that rejects the empty API key, the key that
  \<^verbatim>\<open>set_environment\<close> leaves.
\<close>

definition nokey_world :: world where
  "nokey_world =
     sample_world\<lparr>ChatOpenAI :=
       (\<lambda>p. Inl (Exception ''The api_key client option must be set''))\<rparr>"

lemmas load_tools_defs =
  load_tools_def available_tools_def ddg_tool_def self_ask_agent_def base_tools_def
  add_openweathermap_def add_wolfram_alpha_def add_google_search_def env_set_def
  set_environment_def

section \<open>Properties of the tool lookup\<close>

lemma requested_tools_acc:
  "requested_tools avail ns (out, ts) =
     (out @ map warning_not_found (filter (\<lambda>n. n \<notin> fst ` set avail) ns),
      ts @ List.map_filter (map_of avail) ns)"
  by (induction ns arbitrary: out ts)
     (auto simp: List.map_filter_simps map_of_eq_None_iff [symmetric] split: option.splits)

lemma add_openweathermap_cases:
  "snd (add_openweathermap w avail) = avail \<or>
   (\<exists>mgr d. snd (add_openweathermap w avail) =
      AList.update ''openweathermap''
        \<lparr>name = ''OpenWeatherMap'', description = d, func = get_current_weather mgr\<rparr> avail)"
  by (auto simp: add_openweathermap_def split: option.splits sum.splits exn.splits)

lemma add_wolfram_alpha_cases:
  "snd (add_wolfram_alpha w avail) = avail \<or>
   (\<exists>t. snd (add_wolfram_alpha w avail) =
      AList.update ''wolfram-alpha'' (t\<lparr>func := WolframAlphaTool_run (func t)\<rparr>) avail)"
  by (auto simp: add_wolfram_alpha_def split: option.splits sum.splits exn.splits)

lemma add_google_search_cases:
  "snd (add_google_search w avail) = avail \<or>
   (\<exists>t. snd (add_google_search w avail) = AList.update ''google-search'' t avail)"
  by (auto simp: add_google_search_def split: option.splits sum.splits exn.splits)

lemma map_of_add_openweathermap:
  "k \<noteq> ''openweathermap'' \<Longrightarrow> map_of (snd (add_openweathermap w avail)) k = map_of avail k"
  using add_openweathermap_cases [of w avail] by (auto simp: update_conv')

lemma map_of_add_wolfram_alpha:
  "k \<noteq> ''wolfram-alpha'' \<Longrightarrow> map_of (snd (add_wolfram_alpha w avail)) k = map_of avail k"
  using add_wolfram_alpha_cases [of w avail] by (auto simp: update_conv')

lemma map_of_add_google_search:
  "k \<noteq> ''google-search'' \<Longrightarrow> map_of (snd (add_google_search w avail)) k = map_of avail k"
  using add_google_search_cases [of w avail] by (auto simp: update_conv')

lemma available_tools_InrD:
  assumes "available_tools w lm = (out, Inr avail)"
  obtains ddg sa avail0 where
    "snd (ddg_tool w) = Inr ddg" "self_ask_agent w lm ddg = Inr sa"
    "base_tools w lm sa = Inr avail0"
    "avail = snd (add_google_search w (snd (add_wolfram_alpha w (snd (add_openweathermap w
       (case ddg of Some t \<Rightarrow> AList.update ''ddg-search'' t avail0 | None \<Rightarrow> avail0))))))"
  using assms
  by (auto simp: available_tools_def Let_def split: prod.splits sum.splits)

lemma base_tools_InrD:
  assumes "base_tools w lm sa = Inr avail0"
  obtains arxiv wikipedia run p c where
    "ArxivQueryRun w = Inr arxiv" "WikipediaQueryRun w = Inr wikipedia"
    "LLMMathChain_from_llm w lm = Inr run"
    "avail0 = [(''arxiv'', arxiv), (''wikipedia'', wikipedia), (''python_repl'', p),
               (''llm-math'', \<lparr>name = ''Calculator'',
                 description = ''Useful for when you need to answer questions about math.'',
                 func = run\<rparr>), (''critical_search'', c)]"
  using assms by (auto simp: base_tools_def split: sum.splits)

lemma available_tools_wikipedia:
  assumes "available_tools w lm = (out, Inr avail)"
  shows "\<exists>t. WikipediaQueryRun w = Inr t \<and> map_of avail ''wikipedia'' = Some t"
proof -
  from assms obtain ddg sa avail0 where
    b: "base_tools w lm sa = Inr avail0" and
    a: "avail = snd (add_google_search w (snd (add_wolfram_alpha w (snd (add_openweathermap w
       (case ddg of Some t \<Rightarrow> AList.update ''ddg-search'' t avail0 | None \<Rightarrow> avail0))))))"
    by (rule available_tools_InrD)
  from b obtain t where "WikipediaQueryRun w = Inr t" "map_of avail0 ''wikipedia'' = Some t"
    by (rule base_tools_InrD) simp
  then show ?thesis
    by (simp add: a map_of_add_google_search map_of_add_wolfram_alpha map_of_add_openweathermap
      update_conv' split: option.splits)
qed

lemma available_tools_keys:
  assumes "available_tools w lm = (out, Inr avail)"
  shows "fst ` set avail \<subseteq>
           {''arxiv'', ''wikipedia'', ''python_repl'', ''llm-math'', ''critical_search'',
            ''ddg-search'', ''openweathermap'', ''wolfram-alpha'', ''google-search''}"
proof -
  from assms obtain ddg sa avail0 where
    b: "base_tools w lm sa = Inr avail0" and
    a: "avail = snd (add_google_search w (snd (add_wolfram_alpha w (snd (add_openweathermap w
       (case ddg of Some t \<Rightarrow> AList.update ''ddg-search'' t avail0 | None \<Rightarrow> avail0))))))"
    by (rule available_tools_InrD)
  have "map_of avail k = None"
    if "k \<notin> {''arxiv'', ''wikipedia'', ''python_repl'', ''llm-math'', ''critical_search'',
              ''ddg-search'', ''openweathermap'', ''wolfram-alpha'', ''google-search''}" for k
    using b that
    by (elim base_tools_InrD)
       (simp add: a map_of_add_google_search map_of_add_wolfram_alpha map_of_add_openweathermap
          update_conv' split: option.splits)
  then show ?thesis
    by (meson map_of_eq_None_iff subsetI)
qed

text \<open>In the sample world the dictionary is built.\<close>

lemma available_tools_sample:
  "available_tools sample_world (Some (LanguageModel 0)) =
     (fst (available_tools sample_world (Some (LanguageModel 0))),
      Inr (projr (snd (available_tools sample_world (Some (LanguageModel 0))))))"
  by (simp add: load_tools_defs sample_world_def)

text \<open>
  Claim C2. Once the dictionary of tools is built, \<^verbatim>\<open>load_tools\<close> returns, for every list of
  requested names, exactly the tools of the names that are keys of the dictionary (the
  known and available ones), in the order of the request, and prints one warning for each
  other name; no name makes it raise. Requesting \<^verbatim>\<open>wikipedia\<close> and
  \<^verbatim>\<open>nonexistent-tool\<close> gives the Wikipedia tool alone, with one warning.
\<close>

theorem load_tools_partial_success:
  assumes "available_tools w lm = (out, Inr avail)"
  shows "load_tools w tool_names lm =
           (out @ map warning_not_found (filter (\<lambda>n. n \<notin> fst ` set avail) tool_names),
            Inr (List.map_filter (map_of avail) tool_names))
         \<and> (\<exists>t. WikipediaQueryRun w = Inr t \<and>
                load_tools w [''wikipedia'', ''nonexistent-tool''] lm =
                  (out @ [warning_not_found ''nonexistent-tool''], Inr [t]))"
proof -
  have general: "load_tools w ns lm =
      (out @ map warning_not_found (filter (\<lambda>n. n \<notin> fst ` set avail) ns),
       Inr (List.map_filter (map_of avail) ns))" for ns
    using assms by (simp add: load_tools_def requested_tools_acc)
  from assms obtain t where t: "WikipediaQueryRun w = Inr t" "map_of avail ''wikipedia'' = Some t"
    using available_tools_wikipedia by blast
  have "''nonexistent-tool'' \<notin> fst ` set avail"
    using available_tools_keys [OF assms] by auto
  moreover have "''wikipedia'' \<in> fst ` set avail"
    using t(2) by (metis map_of_eq_None_iff option.distinct(1))
  ultimately have "load_tools w [''wikipedia'', ''nonexistent-tool''] lm =
      (out @ [warning_not_found ''nonexistent-tool''], Inr [t])"
    using t(2) by (simp add: general List.map_filter_simps map_of_eq_None_iff [symmetric])
  with general t(1) show ?thesis by blast
qed

theorem load_tools_partial_success_witness:
  "available_tools sample_world (Some (LanguageModel 0)) =
     (fst (available_tools sample_world (Some (LanguageModel 0))),
      Inr (projr (snd (available_tools sample_world (Some (LanguageModel 0))))))
   \<and> load_tools sample_world [''wikipedia'', ''openweathermap'', ''nonexistent-tool'']
         (Some (LanguageModel 0)) =
       ([''Info: OWM_API_KEY not found. OpenWeatherMap tool will not be available.'',
         ''Info: WOLFRAM_ALPHA_APPID not found. Wolfram Alpha tool will not be available.'',
         ''Info: GOOGLE_API_KEY and/or GOOGLE_CSE_ID not found. Google Search tool will not be available.'',
         warning_not_found ''openweathermap'', warning_not_found ''nonexistent-tool''],
        Inr [\<lparr>name = ''wikipedia'', description = ''Search Wikipedia'',
             func = (\<lambda>q. Inr (PStr ''No good Wikipedia Search Result was found''))\<rparr>])"
  using load_tools_partial_success [OF available_tools_sample,
    of "[''wikipedia'', ''openweathermap'', ''nonexistent-tool'']"]
  by (simp add: load_tools_defs sample_world_def List.map_filter_simps)

text \<open>
  Claim C7, as stated, fails: a name requested twice is bound twice. In the sample world
  the request \<^verbatim>\<open>["wikipedia", "wikipedia"]\<close> gives two tools named \<^verbatim>\<open>wikipedia\<close>.
\<close>

theorem load_tools_repeats_counterexample:
  "\<not> distinct (map name (projr (snd
      (load_tools sample_world [''wikipedia'', ''wikipedia''] (Some (LanguageModel 0))))))"
  by (simp add: load_tools_defs sample_world_def)

text \<open>
  Claim C7, amended. \<^verbatim>\<open>load_tools\<close> binds one tool for every occurrence of a known name in
  the request. When the tools of the dictionary have pairwise different names, the bound
  tools have pairwise different names exactly when no known name is requested twice.
\<close>

theorem load_tools_duplicates:
  assumes "available_tools w lm = (out, Inr avail)"
    and "distinct (map (\<lambda>kv. name (snd kv)) avail)"
    and "snd (load_tools w tool_names lm) = Inr ts"
  shows "length ts = length (filter (\<lambda>n. n \<in> fst ` set avail) tool_names)
         \<and> (distinct (map name ts) \<longleftrightarrow> distinct (filter (\<lambda>n. n \<in> fst ` set avail) tool_names))"
proof -
  let ?known = "filter (\<lambda>n. n \<in> fst ` set avail) tool_names"
  let ?g = "\<lambda>n. name (the (map_of avail n))"
  have ts: "ts = List.map_filter (map_of avail) tool_names"
    using assms(1,3) by (simp add: load_tools_def requested_tools_acc)
  have flt: "filter (\<lambda>n. map_of avail n \<noteq> None) tool_names = ?known"
    by (simp add: map_of_eq_None_iff)
  have names: "map name ts = map ?g ?known"
    unfolding ts List.map_filter_def flt by simp
  have "inj_on ?g (set ?known)"
  proof (rule inj_onI)
    fix a b assume a: "a \<in> set ?known" and b: "b \<in> set ?known" and eq: "?g a = ?g b"
    from a have "a \<in> fst ` set avail" by simp
    then obtain ta where ta: "map_of avail a = Some ta"
      by (meson map_of_eq_None_iff not_Some_eq)
    from b have "b \<in> fst ` set avail" by simp
    then obtain tb where tb: "map_of avail b = Some tb"
      by (meson map_of_eq_None_iff not_Some_eq)
    have mem: "(a, ta) \<in> set avail" "(b, tb) \<in> set avail"
      using ta tb by (auto dest: map_of_SomeD)
    have same: "name (snd (a, ta)) = name (snd (b, tb))"
      using eq ta tb by simp
    have inj: "inj_on (\<lambda>kv. name (snd kv)) (set avail)"
      using assms(2) by (simp add: distinct_map)
    have "(a, ta) = (b, tb)"
      by (rule inj_onD [OF inj same mem])
    then show "a = b" by simp
  qed
  then have "distinct (map ?g ?known) \<longleftrightarrow> distinct ?known"
    by (simp add: distinct_map)
  moreover have "length ts = length ?known"
    using names by (metis length_map)
  ultimately show ?thesis using names by simp
qed

theorem load_tools_duplicates_witness:
  "distinct (map (\<lambda>kv. name (snd kv))
     (projr (snd (available_tools sample_world (Some (LanguageModel 0))))))
   \<and> length (projr (snd (load_tools sample_world
         [''arxiv'', ''openweathermap'', ''wikipedia''] (Some (LanguageModel 0))))) = 2
   \<and> distinct (map name (projr (snd (load_tools sample_world
         [''arxiv'', ''openweathermap'', ''wikipedia''] (Some (LanguageModel 0))))))"
  using load_tools_duplicates [OF available_tools_sample,
    of "[''arxiv'', ''openweathermap'', ''wikipedia'']"
       "projr (snd (load_tools sample_world
          [''arxiv'', ''openweathermap'', ''wikipedia''] (Some (LanguageModel 0))))"]
  by (simp add: load_tools_defs sample_world_def)

section \<open>Properties of the model factory\<close>

lemma startswith_iff: "startswith s p \<longleftrightarrow> (\<exists>rest. s = p @ rest)"
  by (induction s p rule: startswith.induct) auto

text \<open>
  Claim C9, as stated, fails: \<^verbatim>\<open>create_llm\<close> raises whenever the construction of the chat
  client raises. In the world whose client rejects the empty API key, it raises for the
  name \<^verbatim>\<open>gpt-4\<close>.
\<close>

theorem create_llm_raises_counterexample:
  "isl (create_llm nokey_world ''gpt-4'')"
  by (simp add: create_llm_def nokey_world_def)

text \<open>
  Claim C9, amended. For every model name, \<^verbatim>\<open>create_llm\<close> is the construction of the chat
  client with temperature 0 and streaming, under the given name when the name starts with
  \<^verbatim>\<open>gpt-\<close> or \<^verbatim>\<open>Qwen/\<close> and under \<^verbatim>\<open>gpt-3.5-turbo\<close> for every other name, which is not
  reported as unknown. It raises exactly when that construction raises, and so for no name
  when the client can always be built.
\<close>

theorem create_llm_model:
  "create_llm w model_name =
     ChatOpenAI w
       \<lparr>model = (if (\<exists>rest. model_name = ''gpt-'' @ rest) \<or> (\<exists>rest. model_name = ''Qwen/'' @ rest)
                 then model_name else ''gpt-3.5-turbo''),
        temperature = 0, streaming = True\<rparr>
   \<and> (isl (create_llm w model_name) \<longleftrightarrow>
        isl (ChatOpenAI w
          \<lparr>model = (if (\<exists>rest. model_name = ''gpt-'' @ rest) \<or>
                       (\<exists>rest. model_name = ''Qwen/'' @ rest)
                    then model_name else ''gpt-3.5-turbo''),
           temperature = 0, streaming = True\<rparr>))
   \<and> ((\<forall>p. \<not> isl (ChatOpenAI w p)) \<longrightarrow> \<not> isl (create_llm w model_name))"
proof -
  have eq: "create_llm w model_name =
     ChatOpenAI w
       \<lparr>model = (if (\<exists>rest. model_name = ''gpt-'' @ rest) \<or> (\<exists>rest. model_name = ''Qwen/'' @ rest)
                 then model_name else ''gpt-3.5-turbo''),
        temperature = 0, streaming = True\<rparr>"
    unfolding create_llm_def startswith_iff by simp
  show ?thesis
    by (intro conjI impI) (simp_all only: eq simp_thms)
qed

theorem create_llm_model_witness:
  "(\<forall>p. \<not> isl (ChatOpenAI sample_world p))
   \<and> \<not> isl (create_llm sample_world ''llama-3'')
   \<and> create_llm sample_world ''Qwen/Qwen3-8B'' =
     ChatOpenAI sample_world \<lparr>model = ''Qwen/Qwen3-8B'', temperature = 0, streaming = True\<rparr>
   \<and> create_llm sample_world ''llama-3'' =
     ChatOpenAI sample_world \<lparr>model = ''gpt-3.5-turbo'', temperature = 0, streaming = True\<rparr>"
proof -
  have h: "\<forall>p. \<not> isl (ChatOpenAI sample_world p)"
    by (simp add: sample_world_def)
  from create_llm_model [of sample_world "''Qwen/Qwen3-8B''"]
    create_llm_model [of sample_world "''llama-3''"] h
  show ?thesis by simp
qed

section \<open>Properties of the construction of the tools\<close>

lemma load_tools_InrD:
  assumes "snd (load_tools w tool_names lm) = Inr ts"
  obtains out avail where "available_tools w lm = (out, Inr avail)"
  using assms by (auto simp: load_tools_def split: prod.splits sum.splits)

lemma self_ask_agent_InrD:
  assumes "self_ask_agent w lm ddg = Inr sa"
  obtains pr st a where "hub_pull w ''hwchase17/self-ask-with-search'' = Inr pr"
    "create_self_ask_with_search_agent w lm [st] pr = Inr a"
  using assms by (auto simp: self_ask_agent_def Let_def split: sum.splits)

text \<open>
  Claim C10. Whatever names are requested, a call of \<^verbatim>\<open>load_tools\<close> that returns has built
  the calculator chain and the self-ask agent from the language model it was given. So
  when the framework rejects a missing model in either construction, \<^verbatim>\<open>load_tools\<close> called
  without a model raises while the dictionary is built, for every list of names.
\<close>

theorem load_tools_eager_llm:
  "(snd (load_tools w tool_names lm) = Inr ts \<longrightarrow>
      (\<exists>run. LLMMathChain_from_llm w lm = Inr run) \<and>
      (\<exists>pr st a. hub_pull w ''hwchase17/self-ask-with-search'' = Inr pr \<and>
         create_self_ask_with_search_agent w lm [st] pr = Inr a))
   \<and> (isl (LLMMathChain_from_llm w None) \<or>
        (\<forall>st pr. isl (create_self_ask_with_search_agent w None st pr)) \<longrightarrow>
      isl (snd (available_tools w None)) \<and> isl (snd (load_tools w tool_names None)))"
proof -
  have built: "(\<exists>run. LLMMathChain_from_llm w l = Inr run) \<and>
      (\<exists>pr st a. hub_pull w ''hwchase17/self-ask-with-search'' = Inr pr \<and>
         create_self_ask_with_search_agent w l [st] pr = Inr a)"
    if "available_tools w l = (out, Inr avail)" for l out avail
  proof -
    from that obtain ddg sa avail0 where
      sa: "self_ask_agent w l ddg = Inr sa" and b: "base_tools w l sa = Inr avail0"
      by (rule available_tools_InrD)
    from b have "\<exists>run. LLMMathChain_from_llm w l = Inr run"
      by (rule base_tools_InrD) simp
    moreover from sa have "\<exists>pr st a. hub_pull w ''hwchase17/self-ask-with-search'' = Inr pr \<and>
         create_self_ask_with_search_agent w l [st] pr = Inr a"
      by (rule self_ask_agent_InrD) blast
    ultimately show ?thesis by simp
  qed
  have first: "snd (load_tools w tool_names lm) = Inr ts \<longrightarrow>
      (\<exists>run. LLMMathChain_from_llm w lm = Inr run) \<and>
      (\<exists>pr st a. hub_pull w ''hwchase17/self-ask-with-search'' = Inr pr \<and>
         create_self_ask_with_search_agent w lm [st] pr = Inr a)"
    using built by (auto elim!: load_tools_InrD)
  have second: "isl (snd (available_tools w None)) \<and> isl (snd (load_tools w tool_names None))"
    if rej: "isl (LLMMathChain_from_llm w None) \<or>
        (\<forall>st pr. isl (create_self_ask_with_search_agent w None st pr))"
  proof -
    have "isl (snd (available_tools w None))"
    proof (rule ccontr)
      assume "\<not> isl (snd (available_tools w None))"
      then obtain out avail where "available_tools w None = (out, Inr avail)"
        by (metis isl_def prod.collapse sum.exhaust_sel sum.collapse(2))
      from built [OF this] obtain run pr st a where
        m: "LLMMathChain_from_llm w None = Inr run" and
        c: "create_self_ask_with_search_agent w None [st] pr = Inr a"
        by blast
      from rej show False
      proof
        assume "isl (LLMMathChain_from_llm w None)"
        with m show False by simp
      next
        assume "\<forall>st pr. isl (create_self_ask_with_search_agent w None st pr)"
        then have "isl (create_self_ask_with_search_agent w None [st] pr)" by blast
        with c show False by simp
      qed
    qed
    then show ?thesis
      by (auto simp: load_tools_def isl_def split: prod.splits sum.splits)
  qed
  from first second show ?thesis by blast
qed

theorem load_tools_eager_llm_witness:
  "isl (LLMMathChain_from_llm sample_world None)
   \<and> isl (snd (load_tools sample_world [''wikipedia''] None))
   \<and> isl (snd (load_tools sample_world [] None))
   \<and> \<not> isl (snd (load_tools sample_world [''wikipedia''] (Some (LanguageModel 0))))
   \<and> \<not> isl (LLMMathChain_from_llm sample_world (Some (LanguageModel 0)))"
proof -
  have r: "isl (LLMMathChain_from_llm sample_world None)"
    by (simp add: sample_world_def)
  have ok: "snd (load_tools sample_world [''wikipedia''] (Some (LanguageModel 0))) =
      Inr (projr (snd (load_tools sample_world [''wikipedia''] (Some (LanguageModel 0)))))"
    by (simp add: load_tools_defs sample_world_def)
  from load_tools_eager_llm [of sample_world "[''wikipedia'']" None]
    load_tools_eager_llm [of sample_world "[]" None]
    load_tools_eager_llm [of sample_world "[''wikipedia'']" "Some (LanguageModel 0)"] r ok
  show ?thesis by (auto simp: isl_def)
qed

section \<open>Properties of the capabilities\<close>

lemma ddg_tool_InrD:
  assumes "snd (ddg_tool w) = Inr ddg"
  shows "import_ddgs w = None \<Longrightarrow> \<exists>d. ddg = Some d \<and> func d = search w"
    and "import_ddgs w \<noteq> None \<Longrightarrow> ddg = Some t \<Longrightarrow> DuckDuckGoSearchRun w = Inr t"
  using assms
  by (auto simp: ddg_tool_def split: option.splits exn.splits sum.splits)

lemma add_openweathermap_entry:
  "snd (add_openweathermap w avail) = avail \<or>
   (\<exists>api_key mgr d. environ w ''OWM_API_KEY'' = Some api_key \<and> pyowm_OWM w api_key = Inr mgr \<and>
      snd (add_openweathermap w avail) =
        AList.update ''openweathermap''
          \<lparr>name = ''OpenWeatherMap'', description = d, func = get_current_weather mgr\<rparr> avail)"
  by (auto simp: add_openweathermap_def split: option.splits sum.splits exn.splits)

lemma add_wolfram_alpha_entry:
  "snd (add_wolfram_alpha w avail) = avail \<or>
   (\<exists>base. WolframAlphaQueryRun w = Inr base \<and>
      snd (add_wolfram_alpha w avail) =
        AList.update ''wolfram-alpha'' (base\<lparr>func := WolframAlphaTool_run (func base)\<rparr>) avail)"
  by (auto simp: add_wolfram_alpha_def split: option.splits sum.splits exn.splits)

lemma add_google_search_entry:
  "snd (add_google_search w avail) = avail \<or>
   (\<exists>t. (GoogleSearchRun w = Inr t \<or> GoogleSearchRun_deprecated w = Inr t) \<and>
      snd (add_google_search w avail) = AList.update ''google-search'' t avail)"
  by (auto simp: add_google_search_def split: option.splits sum.splits exn.splits)

lemma base_tools_entries:
  assumes "base_tools w lm sa = Inr avail0"
  obtains arxiv wikipedia p m c where
    "ArxivQueryRun w = Inr arxiv" "WikipediaQueryRun w = Inr wikipedia"
    "func p = python_repl_run w"
    "LLMMathChain_from_llm w lm = Inr (func m)"
    "func c = (\<lambda>x. case fst (AgentExecutor_invoke w sa [] (PStr x)) of
                       Inl e \<Rightarrow> Inl e | Inr d \<Rightarrow> Inr (PDict d))"
    "avail0 = [(''arxiv'', arxiv), (''wikipedia'', wikipedia), (''python_repl'', p),
               (''llm-math'', m), (''critical_search'', c)]"
proof -
  from assms obtain arxiv wikipedia run where
    a: "ArxivQueryRun w = Inr arxiv" "WikipediaQueryRun w = Inr wikipedia"
      "LLMMathChain_from_llm w lm = Inr run"
    by (auto simp: base_tools_def split: sum.splits)
  show ?thesis
    using assms a
    by (intro that [of arxiv wikipedia
          "snd (avail0 ! 2)" "snd (avail0 ! 3)" "snd (avail0 ! 4)"])
       (auto simp: base_tools_def)
qed

lemma available_tools_keyed:
  "available_tools keyed_world (Some (LanguageModel 0)) =
     (fst (available_tools keyed_world (Some (LanguageModel 0))),
      Inr (projr (snd (available_tools keyed_world (Some (LanguageModel 0))))))"
  by (simp add: load_tools_defs keyed_world_def sample_world_def)

text \<open>
  Claim C4, as stated, fails: not every tool of the dictionary catches the exceptions of
  its provider. The calculator is built with the \<^verbatim>\<open>run\<close> of the framework's chain as its
  function, so in the sample world, where that chain raises, the tool raises.
\<close>

theorem calculator_raises_counterexample:
  "func (hd (projr (snd (load_tools sample_world [''llm-math''] (Some (LanguageModel 0))))))
     ''2+2'' = Inl (Exception ''unknown format from LLM'')"
  by (simp add: load_tools_defs sample_world_def)

text \<open>
  Claim C4, amended. In every dictionary that \<^verbatim>\<open>load_tools\<close> builds, each entry is one of
  nine. Three have a function that the repository defines and that never raises: the tool
  under \<^verbatim>\<open>ddg-search\<close> when it is built on the \<^verbatim>\<open>ddgs\<close> package, whose function is
  \<^verbatim>\<open>search\<close>; the tool under \<^verbatim>\<open>openweathermap\<close>, whose function is
  \<^verbatim>\<open>get_current_weather\<close> on the manager built from the key of the environment; the tool
  under \<^verbatim>\<open>wolfram-alpha\<close>, whose function wraps the function of the framework's tool and
  passes its results on. Each returns a value for every input, and when the live call
  raises, the value is a text that names the failure and carries the message of the
  exception. The other entries have no handler: the tools under \<^verbatim>\<open>arxiv\<close>,
  \<^verbatim>\<open>wikipedia\<close>, \<^verbatim>\<open>google-search\<close>, and \<^verbatim>\<open>ddg-search\<close> on the older package, are the
  framework's tools themselves; the function under \<^verbatim>\<open>python_repl\<close> is the framework's
  \<^verbatim>\<open>run\<close>, the function under \<^verbatim>\<open>llm-math\<close> is the \<^verbatim>\<open>run\<close> of the calculator chain, and the
  function under \<^verbatim>\<open>critical_search\<close> raises what the self-ask agent raises.
\<close>

theorem registry_tool_handlers:
  assumes "available_tools w lm = (out, Inr avail)"
    and "map_of avail k = Some t"
  shows
    "(k = ''ddg-search'' \<and> import_ddgs w = None \<longrightarrow>
        func t = search w \<and>
        (\<forall>x. \<exists>s. func t x = Inr (PStr s)) \<and>
        (\<forall>x e. DDGS_text w x 5 = Inl e \<longrightarrow>
           func t x = Inr (PStr (''Search failed: '' @ str_exn e))))
   \<and> (k = ''openweathermap'' \<longrightarrow>
        (\<exists>api_key mgr. environ w ''OWM_API_KEY'' = Some api_key \<and>
           pyowm_OWM w api_key = Inr mgr \<and>
           func t = get_current_weather mgr \<and>
           (\<forall>x. \<exists>s. func t x = Inr (PStr s)) \<and>
           (\<forall>x e. mgr x = Inl e \<longrightarrow>
              func t x =
                Inr (PStr (''Could not retrieve weather data for '' @ x @ '': '' @ str_exn e)))))
   \<and> (k = ''wolfram-alpha'' \<longrightarrow>
        (\<exists>base. WolframAlphaQueryRun w = Inr base \<and>
           func t = WolframAlphaTool_run (func base) \<and>
           (\<forall>x. \<exists>r. func t x = Inr r) \<and>
           (\<forall>x r. func base x = Inr r \<longrightarrow> func t x = Inr r) \<and>
           (\<forall>x e. func base x = Inl e \<longrightarrow>
              func t x =
                Inr (PStr (''Wolfram Alpha query failed: '' @ str_exn e @
                  ''. Please try a different tool or rephrase your query.'')))))
   \<and> (k = ''ddg-search'' \<and> import_ddgs w \<noteq> None \<longrightarrow> DuckDuckGoSearchRun w = Inr t)
   \<and> (k = ''arxiv'' \<longrightarrow> ArxivQueryRun w = Inr t)
   \<and> (k = ''wikipedia'' \<longrightarrow> WikipediaQueryRun w = Inr t)
   \<and> (k = ''python_repl'' \<longrightarrow> func t = python_repl_run w)
   \<and> (k = ''llm-math'' \<longrightarrow> LLMMathChain_from_llm w lm = Inr (func t))
   \<and> (k = ''critical_search'' \<longrightarrow>
        (\<exists>ddg sa. self_ask_agent w lm ddg = Inr sa \<and>
           (\<forall>x. func t x =
              (case fst (AgentExecutor_invoke w sa [] (PStr x)) of
                 Inl e \<Rightarrow> Inl e | Inr d \<Rightarrow> Inr (PDict d)))))
   \<and> (k = ''google-search'' \<longrightarrow>
        GoogleSearchRun w = Inr t \<or> GoogleSearchRun_deprecated w = Inr t)
   \<and> k \<in> {''arxiv'', ''wikipedia'', ''python_repl'', ''llm-math'', ''critical_search'',
            ''ddg-search'', ''openweathermap'', ''wolfram-alpha'', ''google-search''}"
proof -
  from assms(1) obtain ddg sa avail0 where
    d: "snd (ddg_tool w) = Inr ddg" and
    sa: "self_ask_agent w lm ddg = Inr sa" and
    b: "base_tools w lm sa = Inr avail0" and
    a: "avail = snd (add_google_search w (snd (add_wolfram_alpha w (snd (add_openweathermap w
       (case ddg of Some t \<Rightarrow> AList.update ''ddg-search'' t avail0 | None \<Rightarrow> avail0))))))"
    by (rule available_tools_InrD)
  let ?avail1 = "case ddg of Some t \<Rightarrow> AList.update ''ddg-search'' t avail0 | None \<Rightarrow> avail0"
  let ?avail2 = "snd (add_openweathermap w ?avail1)"
  let ?avail3 = "snd (add_wolfram_alpha w ?avail2)"
  from b obtain arxiv wikipedia p m c where
    fw: "ArxivQueryRun w = Inr arxiv" "WikipediaQueryRun w = Inr wikipedia"
      "func p = python_repl_run w" "LLMMathChain_from_llm w lm = Inr (func m)"
      "func c = (\<lambda>x. case fst (AgentExecutor_invoke w sa [] (PStr x)) of
                       Inl e \<Rightarrow> Inl e | Inr d \<Rightarrow> Inr (PDict d))" and
    avail0: "avail0 = [(''arxiv'', arxiv), (''wikipedia'', wikipedia), (''python_repl'', p),
               (''llm-math'', m), (''critical_search'', c)]"
    by (rule base_tools_entries)
  have m0: "map_of avail0 = [''arxiv'' \<mapsto> arxiv, ''wikipedia'' \<mapsto> wikipedia,
      ''python_repl'' \<mapsto> p, ''llm-math'' \<mapsto> m, ''critical_search'' \<mapsto> c]"
    unfolding avail0 by (rule ext) simp
  have m1: "map_of ?avail1 = (map_of avail0)(''ddg-search'' := ddg)"
    by (rule ext) (auto simp: update_conv' m0 split: option.splits)
  have base_key: "map_of avail j = map_of avail0 j"
    if "j \<in> {''arxiv'', ''wikipedia'', ''python_repl'', ''llm-math'', ''critical_search''}" for j
    using that
    by (auto simp: a map_of_add_google_search map_of_add_wolfram_alpha
        map_of_add_openweathermap m1)
  have ddg_key: "map_of avail ''ddg-search'' = ddg"
    by (simp add: a map_of_add_google_search map_of_add_wolfram_alpha
        map_of_add_openweathermap m1)
  have c1: "k = ''ddg-search'' \<and> import_ddgs w = None \<longrightarrow>
        func t = search w \<and>
        (\<forall>x. \<exists>s. func t x = Inr (PStr s)) \<and>
        (\<forall>x e. DDGS_text w x 5 = Inl e \<longrightarrow>
           func t x = Inr (PStr (''Search failed: '' @ str_exn e)))"
  proof (intro impI, elim conjE)
    assume "k = ''ddg-search''" "import_ddgs w = None"
    with ddg_tool_InrD(1) [OF d] ddg_key assms(2) have f: "func t = search w" by auto
    show "func t = search w \<and>
        (\<forall>x. \<exists>s. func t x = Inr (PStr s)) \<and>
        (\<forall>x e. DDGS_text w x 5 = Inl e \<longrightarrow>
           func t x = Inr (PStr (''Search failed: '' @ str_exn e)))"
      unfolding f by (simp add: search_def split: sum.splits)
  qed
  have c4: "k = ''ddg-search'' \<and> import_ddgs w \<noteq> None \<longrightarrow> DuckDuckGoSearchRun w = Inr t"
    using ddg_tool_InrD(2) [OF d, of t] ddg_key assms(2) by auto
  have owm0: "map_of ?avail1 ''openweathermap'' = None"
    and wa0: "map_of ?avail2 ''wolfram-alpha'' = None"
    and gs0: "map_of ?avail3 ''google-search'' = None"
    by (simp_all add: map_of_add_wolfram_alpha map_of_add_openweathermap m1 m0)
  have c2: "k = ''openweathermap'' \<longrightarrow>
        (\<exists>api_key mgr. environ w ''OWM_API_KEY'' = Some api_key \<and>
           pyowm_OWM w api_key = Inr mgr \<and>
           func t = get_current_weather mgr \<and>
           (\<forall>x. \<exists>s. func t x = Inr (PStr s)) \<and>
           (\<forall>x e. mgr x = Inl e \<longrightarrow>
              func t x =
                Inr (PStr (''Could not retrieve weather data for '' @ x @ '': '' @ str_exn e))))"
  proof
    assume k: "k = ''openweathermap''"
    with assms(2) have "map_of ?avail2 ''openweathermap'' = Some t"
      by (simp add: a map_of_add_google_search map_of_add_wolfram_alpha)
    with owm0 add_openweathermap_entry [of w ?avail1] obtain api_key mgr where
      e: "environ w ''OWM_API_KEY'' = Some api_key" "pyowm_OWM w api_key = Inr mgr" and
      f: "func t = get_current_weather mgr"
      by (auto simp: update_conv')
    have "(\<forall>x. \<exists>s. func t x = Inr (PStr s)) \<and>
           (\<forall>x e. mgr x = Inl e \<longrightarrow>
              func t x =
                Inr (PStr (''Could not retrieve weather data for '' @ x @ '': '' @ str_exn e)))"
      unfolding f by (simp add: get_current_weather_def split: sum.splits)
    with e f show "\<exists>api_key mgr. environ w ''OWM_API_KEY'' = Some api_key \<and>
           pyowm_OWM w api_key = Inr mgr \<and>
           func t = get_current_weather mgr \<and>
           (\<forall>x. \<exists>s. func t x = Inr (PStr s)) \<and>
           (\<forall>x e. mgr x = Inl e \<longrightarrow>
              func t x =
                Inr (PStr (''Could not retrieve weather data for '' @ x @ '': '' @ str_exn e)))"
      by blast
  qed
  have c3: "k = ''wolfram-alpha'' \<longrightarrow>
        (\<exists>base. WolframAlphaQueryRun w = Inr base \<and>
           func t = WolframAlphaTool_run (func base) \<and>
           (\<forall>x. \<exists>r. func t x = Inr r) \<and>
           (\<forall>x r. func base x = Inr r \<longrightarrow> func t x = Inr r) \<and>
           (\<forall>x e. func base x = Inl e \<longrightarrow>
              func t x =
                Inr (PStr (''Wolfram Alpha query failed: '' @ str_exn e @
                  ''. Please try a different tool or rephrase your query.''))))"
  proof
    assume k: "k = ''wolfram-alpha''"
    with assms(2) have "map_of ?avail3 ''wolfram-alpha'' = Some t"
      by (simp add: a map_of_add_google_search)
    with wa0 add_wolfram_alpha_entry [of w ?avail2] obtain base where
      e: "WolframAlphaQueryRun w = Inr base" and
      f: "func t = WolframAlphaTool_run (func base)"
      by (auto simp: update_conv')
    have "(\<forall>x. \<exists>r. func t x = Inr r) \<and>
           (\<forall>x r. func base x = Inr r \<longrightarrow> func t x = Inr r) \<and>
           (\<forall>x e. func base x = Inl e \<longrightarrow>
              func t x =
                Inr (PStr (''Wolfram Alpha query failed: '' @ str_exn e @
                  ''. Please try a different tool or rephrase your query.'')))"
      unfolding f by (simp add: WolframAlphaTool_run_def split: sum.splits)
    with e f show "\<exists>base. WolframAlphaQueryRun w = Inr base \<and>
           func t = WolframAlphaTool_run (func base) \<and>
           (\<forall>x. \<exists>r. func t x = Inr r) \<and>
           (\<forall>x r. func base x = Inr r \<longrightarrow> func t x = Inr r) \<and>
           (\<forall>x e. func base x = Inl e \<longrightarrow>
              func t x =
                Inr (PStr (''Wolfram Alpha query failed: '' @ str_exn e @
                  ''. Please try a different tool or rephrase your query.'')))"
      by blast
  qed
  have c5: "k = ''arxiv'' \<longrightarrow> ArxivQueryRun w = Inr t"
    and c6: "k = ''wikipedia'' \<longrightarrow> WikipediaQueryRun w = Inr t"
    and c7: "k = ''python_repl'' \<longrightarrow> func t = python_repl_run w"
    and c8: "k = ''llm-math'' \<longrightarrow> LLMMathChain_from_llm w lm = Inr (func t)"
  proof -
    have e: "map_of avail ''arxiv'' = Some arxiv" "map_of avail ''wikipedia'' = Some wikipedia"
      "map_of avail ''python_repl'' = Some p" "map_of avail ''llm-math'' = Some m"
      using base_key [of "''arxiv''"] base_key [of "''wikipedia''"]
        base_key [of "''python_repl''"] base_key [of "''llm-math''"]
      by (simp_all add: m0)
    show "k = ''arxiv'' \<longrightarrow> ArxivQueryRun w = Inr t"
      using e(1) assms(2) fw(1) by auto
    show "k = ''wikipedia'' \<longrightarrow> WikipediaQueryRun w = Inr t"
      using e(2) assms(2) fw(2) by auto
    show "k = ''python_repl'' \<longrightarrow> func t = python_repl_run w"
      using e(3) assms(2) fw(3) by auto
    show "k = ''llm-math'' \<longrightarrow> LLMMathChain_from_llm w lm = Inr (func t)"
      using e(4) assms(2) fw(4) by auto
  qed
  have c9: "k = ''critical_search'' \<longrightarrow>
        (\<exists>ddg sa. self_ask_agent w lm ddg = Inr sa \<and>
           (\<forall>x. func t x =
              (case fst (AgentExecutor_invoke w sa [] (PStr x)) of
                 Inl e \<Rightarrow> Inl e | Inr d \<Rightarrow> Inr (PDict d))))"
  proof
    assume "k = ''critical_search''"
    with assms(2) base_key [of "''critical_search''"] have "t = c" by (simp add: m0)
    with fw(5) sa show "\<exists>ddg sa. self_ask_agent w lm ddg = Inr sa \<and>
           (\<forall>x. func t x =
              (case fst (AgentExecutor_invoke w sa [] (PStr x)) of
                 Inl e \<Rightarrow> Inl e | Inr d \<Rightarrow> Inr (PDict d)))"
      by auto
  qed
  have c10: "k = ''google-search'' \<longrightarrow>
        GoogleSearchRun w = Inr t \<or> GoogleSearchRun_deprecated w = Inr t"
  proof
    assume "k = ''google-search''"
    with assms(2) a have "map_of (snd (add_google_search w ?avail3)) ''google-search'' = Some t"
      by simp
    with gs0 add_google_search_entry [of w ?avail3]
    show "GoogleSearchRun w = Inr t \<or> GoogleSearchRun_deprecated w = Inr t"
      by (auto simp: update_conv')
  qed
  have c11: "k \<in> {''arxiv'', ''wikipedia'', ''python_repl'', ''llm-math'', ''critical_search'',
            ''ddg-search'', ''openweathermap'', ''wolfram-alpha'', ''google-search''}"
  proof -
    from assms(2) have "(k, t) \<in> set avail" by (rule map_of_SomeD)
    then have "k \<in> fst ` set avail" by (rule image_eqI [rotated]) simp
    with available_tools_keys [OF assms(1)] show ?thesis by (rule subsetD)
  qed
  from c1 c2 c3 c4 c5 c6 c7 c8 c9 c10 c11 show ?thesis
    by (intro conjI)
qed

theorem registry_tool_handlers_witness:
  "func (the (map_of (projr (snd (available_tools keyed_world (Some (LanguageModel 0)))))
        ''wolfram-alpha'')) ''integrate x'' =
      Inr (PStr ''Wolfram Alpha query failed: Invalid appid. Please try a different tool or rephrase your query.'')
   \<and> func (the (map_of (projr (snd (available_tools keyed_world (Some (LanguageModel 0)))))
        ''openweathermap'')) ''Atlantis'' =
      Inr (PStr ''Could not retrieve weather data for Atlantis: Unable to find the resource'')
   \<and> func (the (map_of (projr (snd (available_tools keyed_world (Some (LanguageModel 0)))))
        ''llm-math'')) ''2+2'' = Inl (Exception ''unknown format from LLM'')"
proof -
  let ?R = "projr (snd (available_tools keyed_world (Some (LanguageModel 0))))"
  have hw: "map_of ?R ''wolfram-alpha'' = Some (the (map_of ?R ''wolfram-alpha''))"
    and ho: "map_of ?R ''openweathermap'' = Some (the (map_of ?R ''openweathermap''))"
    and hm: "map_of ?R ''llm-math'' = Some (the (map_of ?R ''llm-math''))"
    by (simp_all add: load_tools_defs keyed_world_def sample_world_def)
  from registry_tool_handlers [OF available_tools_keyed hw]
  obtain base where "WolframAlphaQueryRun keyed_world = Inr base"
    and wa: "\<forall>x e. func base x = Inl e \<longrightarrow>
      func (the (map_of ?R ''wolfram-alpha'')) x =
        Inr (PStr (''Wolfram Alpha query failed: '' @ str_exn e @
          ''. Please try a different tool or rephrase your query.''))"
    by auto
  then have "func base ''integrate x'' = Inl (Exception ''Invalid appid'')"
    by (auto simp: keyed_world_def sample_world_def)
  with wa have 1: "func (the (map_of ?R ''wolfram-alpha'')) ''integrate x'' =
      Inr (PStr ''Wolfram Alpha query failed: Invalid appid. Please try a different tool or rephrase your query.'')"
    by fastforce
  from registry_tool_handlers [OF available_tools_keyed ho]
  obtain api_key mgr where "pyowm_OWM keyed_world api_key = Inr mgr"
    and ow: "\<forall>x e. mgr x = Inl e \<longrightarrow>
      func (the (map_of ?R ''openweathermap'')) x =
        Inr (PStr (''Could not retrieve weather data for '' @ x @ '': '' @ str_exn e))"
    by auto
  then have "mgr ''Atlantis'' = Inl (Exception ''Unable to find the resource'')"
    by (auto simp: keyed_world_def sample_world_def)
  with ow have 2: "func (the (map_of ?R ''openweathermap'')) ''Atlantis'' =
      Inr (PStr ''Could not retrieve weather data for Atlantis: Unable to find the resource'')"
    by fastforce
  from registry_tool_handlers [OF available_tools_keyed hm]
  have "LLMMathChain_from_llm keyed_world (Some (LanguageModel 0)) =
      Inr (func (the (map_of ?R ''llm-math'')))"
    by simp
  then have 3: "func (the (map_of ?R ''llm-math'')) ''2+2'' = Inl (Exception ''unknown format from LLM'')"
    by (auto simp: keyed_world_def sample_world_def)
  from 1 2 3 show ?thesis by simp
qed

section \<open>Properties of load\_agent\<close>

lemma not_isl_Inr: "\<not> isl x \<Longrightarrow> \<exists>v. x = Inr v"
  by (cases x) simp_all

lemma ddg_tool_succeeds:
  assumes "\<forall>m. import_ddgs w \<noteq> Some (Exception m)"
  shows "\<exists>ddg. snd (ddg_tool w) = Inr ddg"
  using assms by (auto simp: ddg_tool_def split: option.splits exn.splits sum.splits)

lemma available_tools_succeeds:
  assumes "\<forall>m. import_ddgs w \<noteq> Some (Exception m)"
    and "\<forall>p. \<not> isl (hub_pull w p)"
    and "\<forall>ts p. \<not> isl (create_self_ask_with_search_agent w lm ts p)"
    and "\<not> isl (ArxivQueryRun w)"
    and "\<not> isl (WikipediaQueryRun w)"
    and "\<not> isl (LLMMathChain_from_llm w lm)"
  shows "\<exists>avail. snd (available_tools w lm) = Inr avail"
proof -
  from ddg_tool_succeeds [OF assms(1)] obtain out0 ddg where d: "ddg_tool w = (out0, Inr ddg)"
    by (metis prod.collapse)
  from assms(2) obtain pr where pr: "hub_pull w ''hwchase17/self-ask-with-search'' = Inr pr"
    using not_isl_Inr by blast
  have "\<exists>sa. self_ask_agent w lm ddg = Inr sa"
  proof (cases ddg)
    case None
    from assms(3) obtain a where "create_self_ask_with_search_agent w lm
        [\<lparr>name = ''Intermediate Answer'', description = ''Search'',
          func = (\<lambda>x. Inr (PStr ''Search tool not available''))\<rparr>] pr = Inr a"
      using not_isl_Inr by blast
    with None pr show ?thesis by (simp add: self_ask_agent_def)
  next
    case (Some t)
    from assms(3) obtain a where "create_self_ask_with_search_agent w lm
        [\<lparr>name = ''Intermediate Answer'', description = ''Search'', func = func t\<rparr>] pr = Inr a"
      using not_isl_Inr by blast
    with Some pr show ?thesis by (simp add: self_ask_agent_def)
  qed
  then obtain sa where sa: "self_ask_agent w lm ddg = Inr sa" ..
  from assms(4,5,6) obtain ar wi run where
    "ArxivQueryRun w = Inr ar" "WikipediaQueryRun w = Inr wi" "LLMMathChain_from_llm w lm = Inr run"
    using not_isl_Inr by metis
  then have "\<exists>avail0. base_tools w lm sa = Inr avail0"
    by (simp add: base_tools_def)
  then obtain avail0 where b: "base_tools w lm sa = Inr avail0" ..
  show ?thesis
    using d sa b by (simp add: available_tools_def Let_def split: prod.splits)
qed

lemma load_tools_succeeds:
  assumes "snd (available_tools w lm) = Inr avail"
  shows "\<exists>ts. snd (load_tools w tool_names lm) = Inr ts"
  using assms by (auto simp: load_tools_def split: prod.splits sum.splits)

text \<open>
  Claim C3, as stated, fails: a strategy outside \<^verbatim>\<open>zero-shot-react\<close> and
  \<^verbatim>\<open>plan-and-solve\<close> does not make \<^verbatim>\<open>load_agent\<close> raise. In the sample world the strategy
  \<^verbatim>\<open>no-such-strategy\<close> gives a session.
\<close>

theorem unknown_strategy_counterexample:
  "''no-such-strategy'' \<notin> {''zero-shot-react'', ''plan-and-solve''}
   \<and> \<not> isl (snd (load_agent sample_world [''wikipedia''] ''no-such-strategy'' ''gpt-4''))"
  by (simp add: load_agent_def create_llm_def load_tools_defs sample_world_def)

text \<open>
  Claim C3, amended. \<^verbatim>\<open>load_agent\<close> raises for no value of the strategy: every value other
  than \<^verbatim>\<open>plan-and-solve\<close> builds what \<^verbatim>\<open>zero-shot-react\<close> builds. It raises what the model
  factory raises. It returns a session whenever the calls that every construction makes
  succeed (the chat client, the prompt hub, the self-ask agent, the Arxiv and Wikipedia
  tools, the calculator chain, the planner, the step executor, the agent) and the import
  of \<^verbatim>\<open>ddgs\<close> raises nothing but \<^verbatim>\<open>ImportError\<close>: whatever the environment holds
  and whatever the optional tools of DuckDuckGo, OpenWeatherMap, Wolfram Alpha and Google
  do when they are built.
\<close>

theorem load_agent_raises:
  "(strategy \<noteq> ''plan-and-solve'' \<longrightarrow>
      load_agent w tool_names strategy model_name =
      load_agent w tool_names ''zero-shot-react'' model_name)
   \<and> (\<forall>e. create_llm w model_name = Inl e \<longrightarrow>
        load_agent w tool_names strategy model_name = ([], Inl e))
   \<and> ((\<forall>p. \<not> isl (ChatOpenAI w p)) \<and>
       (\<forall>m. import_ddgs w \<noteq> Some (Exception m)) \<and>
       (\<forall>p. \<not> isl (hub_pull w p)) \<and>
       (\<forall>l ts p. \<not> isl (create_self_ask_with_search_agent w (Some l) ts p)) \<and>
       \<not> isl (ArxivQueryRun w) \<and>
       \<not> isl (WikipediaQueryRun w) \<and>
       (\<forall>l. \<not> isl (LLMMathChain_from_llm w (Some l))) \<and>
       (\<forall>l. \<not> isl (load_chat_planner w l)) \<and>
       (\<forall>l ts. \<not> isl (load_agent_executor w l ts)) \<and>
       (\<forall>l ts p. \<not> isl (create_react_agent w l ts p)) \<longrightarrow>
      \<not> isl (snd (load_agent w tool_names strategy model_name)))"
proof (intro conjI impI allI)
  assume "strategy \<noteq> ''plan-and-solve''"
  then show "load_agent w tool_names strategy model_name =
      load_agent w tool_names ''zero-shot-react'' model_name"
    by (simp add: load_agent_def split: sum.splits prod.splits)
next
  fix e assume "create_llm w model_name = Inl e"
  then show "load_agent w tool_names strategy model_name = ([], Inl e)"
    by (simp add: load_agent_def)
next
  assume h: "(\<forall>p. \<not> isl (ChatOpenAI w p)) \<and>
       (\<forall>m. import_ddgs w \<noteq> Some (Exception m)) \<and>
       (\<forall>p. \<not> isl (hub_pull w p)) \<and>
       (\<forall>l ts p. \<not> isl (create_self_ask_with_search_agent w (Some l) ts p)) \<and>
       \<not> isl (ArxivQueryRun w) \<and>
       \<not> isl (WikipediaQueryRun w) \<and>
       (\<forall>l. \<not> isl (LLMMathChain_from_llm w (Some l))) \<and>
       (\<forall>l. \<not> isl (load_chat_planner w l)) \<and>
       (\<forall>l ts. \<not> isl (load_agent_executor w l ts)) \<and>
       (\<forall>l ts p. \<not> isl (create_react_agent w l ts p))"
  have "\<not> isl (create_llm w model_name)"
    using h by (simp add: create_llm_def)
  then obtain lm where lm: "create_llm w model_name = Inr lm"
    using not_isl_Inr by blast
  have "\<exists>avail. snd (available_tools w (Some lm)) = Inr avail"
    using h by (intro available_tools_succeeds) simp_all
  then obtain ts where "snd (load_tools w tool_names (Some lm)) = Inr ts"
    using load_tools_succeeds by blast
  then obtain out where ts: "load_tools w tool_names (Some lm) = (out, Inr ts)"
    by (metis prod.collapse)
  from h obtain pl ex pr a where
    "load_chat_planner w lm = Inr pl" "load_agent_executor w lm ts = Inr ex"
    "hub_pull w ''hwchase17/react'' = Inr pr" "create_react_agent w lm ts pr = Inr a"
    using not_isl_Inr by metis
  then show "\<not> isl (snd (load_agent w tool_names strategy model_name))"
    using lm ts by (simp add: load_agent_def)
qed

theorem load_agent_raises_witness:
  "\<not> isl (snd (load_agent sample_world [''wikipedia'', ''google-search''] ''plan-and-solve'' ''gpt-4''))
   \<and> load_agent sample_world [''wikipedia''] ''react'' ''gpt-4'' =
     load_agent sample_world [''wikipedia''] ''zero-shot-react'' ''gpt-4''
   \<and> load_agent (sample_world\<lparr>ChatOpenAI := \<lambda>p. Inl (Exception ''no API key'')\<rparr>)
       [''wikipedia''] ''plan-and-solve'' ''gpt-4'' = ([], Inl (Exception ''no API key''))"
proof -
  have r: "''react'' \<noteq> ''plan-and-solve''" by simp
  have f: "create_llm (sample_world\<lparr>ChatOpenAI := \<lambda>p. Inl (Exception ''no API key'')\<rparr>) ''gpt-4'' =
      Inl (Exception ''no API key'')"
    by (simp add: create_llm_def)
  have h: "(\<forall>p. \<not> isl (ChatOpenAI sample_world p)) \<and>
       (\<forall>m. import_ddgs sample_world \<noteq> Some (Exception m)) \<and>
       (\<forall>p. \<not> isl (hub_pull sample_world p)) \<and>
       (\<forall>l ts p. \<not> isl (create_self_ask_with_search_agent sample_world (Some l) ts p)) \<and>
       \<not> isl (ArxivQueryRun sample_world) \<and>
       \<not> isl (WikipediaQueryRun sample_world) \<and>
       (\<forall>l. \<not> isl (LLMMathChain_from_llm sample_world (Some l))) \<and>
       (\<forall>l. \<not> isl (load_chat_planner sample_world l)) \<and>
       (\<forall>l ts. \<not> isl (load_agent_executor sample_world l ts)) \<and>
       (\<forall>l ts p. \<not> isl (create_react_agent sample_world l ts p))"
    by (simp add: sample_world_def)
  from load_agent_raises [of "''plan-and-solve''" sample_world "[''wikipedia'', ''google-search'']" "''gpt-4''"]
    load_agent_raises [of "''react''" sample_world "[''wikipedia'']" "''gpt-4''"]
    load_agent_raises [of "''plan-and-solve''" "sample_world\<lparr>ChatOpenAI := \<lambda>p. Inl (Exception ''no API key'')\<rparr>"
       "[''wikipedia'']" "''gpt-4''"]
    r f h
  show ?thesis by blast
qed

section \<open>Properties of the invocation\<close>

lemma scan_steps_no_response:
  "\<forall>step \<in> set steps. \<not> has_response step \<Longrightarrow> scan_steps result steps = result"
  by (induction result steps rule: scan_steps.induct) (auto split: option.splits)

lemma fallback_output_nonempty: "fallback_output \<noteq> []"
  by (simp add: fallback_output_def)

text \<open>
  What \<^verbatim>\<open>load_agent\<close> returns: under \<^verbatim>\<open>plan-and-solve\<close> the wrapper, bound to the shared
  memory; under any other strategy the framework's executor, bound to the shared memory
  and given the parameters \<^verbatim>\<open>max_iterations=15\<close>, \<^verbatim>\<open>early_stopping_method="generate"\<close> and
  \<^verbatim>\<open>handle_parsing_errors=True\<close>. The loop that reads these parameters is the framework's.
\<close>

lemma load_agent_session:
  assumes "snd (load_agent w tool_names strategy model_name) = Inr session"
  shows "strategy = ''plan-and-solve'' \<Longrightarrow>
           \<exists>self. session = Wrapper self \<and> pe_memory (plan_and_execute self) = Some MEMORY_ref"
    and "strategy \<noteq> ''plan-and-solve'' \<Longrightarrow>
           \<exists>ex. session = Executor ex \<and> memory ex = Some MEMORY_ref \<and>
             max_iterations ex = Some 15 \<and> early_stopping_method ex = Some ''generate'' \<and>
             handle_parsing_errors ex"
  using assms
  by (auto simp: load_agent_def split: sum.splits prod.splits if_splits)

lemma PlanAndExecuteWrapper_invoke_output:
  assumes "with_memory (PlanAndExecute_invoke w (plan_and_execute self))
             (pe_memory (plan_and_execute self)) st
             [(''input'', dict_get input ''input'' (PStr []))] = (Inr result, st')"
  shows "map_of result ''output'' = Some v \<Longrightarrow> truthy v \<Longrightarrow>
           PlanAndExecuteWrapper_invoke w self st input =
             (Inr [(''output'', v),
                   (''intermediate_steps'', dict_get result ''intermediate_steps'' (PList []))], st')"
    and "map_of result ''output'' = None \<Longrightarrow> map_of result ''intermediate_steps'' = None \<Longrightarrow>
           PlanAndExecuteWrapper_invoke w self st input =
             (Inr [(''output'', PStr fallback_output), (''intermediate_steps'', PList [])], st')"
    and "map_of result ''output'' = None \<Longrightarrow>
         map_of result ''intermediate_steps'' = Some (PList steps) \<Longrightarrow>
         \<forall>step \<in> set steps. \<not> has_response step \<Longrightarrow>
           PlanAndExecuteWrapper_invoke w self st input =
             (Inr [(''output'', PStr fallback_output), (''intermediate_steps'', PList steps)], st')"
  using assms
  by (simp_all add: PlanAndExecuteWrapper_invoke_def Let_def dict_get_def scan_steps_no_response)

lemma load_agent_sample_plan:
  "snd (load_agent sample_world [''wikipedia''] ''plan-and-solve'' ''gpt-4'') =
     Inr (Wrapper \<lparr>planner = Planner 0, executor = StepExecutor 0,
       plan_and_execute = \<lparr>pe_planner = Planner 0, pe_executor = StepExecutor 0,
         pe_verbose = True, pe_memory = Some MEMORY_ref\<rparr>\<rparr>)"
  by (simp add: load_agent_def create_llm_def load_tools_defs sample_world_def)

lemmas invoke_sample_defs =
  PlanAndExecuteWrapper_invoke_def with_memory_def dict_get_def sample_world_def
  initial_state_def init_memory_def

text \<open>
  Claim C1, as stated, fails: under \<^verbatim>\<open>zero-shot-react\<close> the session is the framework's
  executor, whose result is returned as it is, with no fallback. In the sample world the
  executor answers the question \<^verbatim>\<open>hello\<close> with an empty output, and so does the session.
\<close>

theorem zero_shot_empty_output_counterexample:
  "\<not> nonempty_str (dict_get (projr (fst (invoke sample_world
       (projr (snd (load_agent sample_world [''wikipedia''] ''zero-shot-react'' ''gpt-4'')))
       initial_state [(''input'', PStr ''hello'')]))) ''output'' PNone)"
  by (simp add: load_agent_def create_llm_def load_tools_defs sample_world_def with_memory_def
      initial_state_def init_memory_def dict_get_def)

text \<open>
  Claim C1, amended. For a session that \<^verbatim>\<open>load_agent\<close> built and every input: under a
  strategy other than \<^verbatim>\<open>plan-and-solve\<close>, invoking it is invoking the framework's executor,
  and the result is passed on unchanged. Under \<^verbatim>\<open>plan-and-solve\<close>, when the executor returns
  a result, the output is the executor's own output if that is non-empty, and the fallback
  text if the result has no output and no step with a response (no steps at all, or a list
  of steps none of which is a dict with the key \<^verbatim>\<open>response\<close>). The fallback text is not
  empty.
\<close>

theorem load_agent_invoke_output:
  assumes "snd (load_agent w tool_names strategy model_name) = Inr session"
  shows "(strategy \<noteq> ''plan-and-solve'' \<longrightarrow>
           (\<exists>ex. session = Executor ex \<and>
              invoke w session st input =
                with_memory (AgentExecutor_invoke w ex) (Some MEMORY_ref) st (PDict input)))
       \<and> (strategy = ''plan-and-solve'' \<longrightarrow>
           (\<exists>self. session = Wrapper self \<and>
              (\<forall>result st'.
                 with_memory (PlanAndExecute_invoke w (plan_and_execute self)) (Some MEMORY_ref) st
                   [(''input'', dict_get input ''input'' (PStr []))] = (Inr result, st') \<longrightarrow>
                 (\<forall>v. map_of result ''output'' = Some v \<and> truthy v \<longrightarrow>
                    fst (invoke w session st input) =
                      Inr [(''output'', v),
                           (''intermediate_steps'',
                            dict_get result ''intermediate_steps'' (PList []))])
               \<and> (map_of result ''output'' = None \<and>
                    map_of result ''intermediate_steps'' = None \<longrightarrow>
                    fst (invoke w session st input) =
                      Inr [(''output'', PStr fallback_output), (''intermediate_steps'', PList [])])
               \<and> (\<forall>steps. map_of result ''output'' = None \<and>
                    map_of result ''intermediate_steps'' = Some (PList steps) \<and>
                    (\<forall>step \<in> set steps. \<not> has_response step) \<longrightarrow>
                    fst (invoke w session st input) =
                      Inr [(''output'', PStr fallback_output),
                           (''intermediate_steps'', PList steps)]))))
       \<and> fallback_output \<noteq> []"
proof (intro conjI impI)
  assume "strategy \<noteq> ''plan-and-solve''"
  with load_agent_session(2) [OF assms] obtain ex where
    "session = Executor ex" "memory ex = Some MEMORY_ref" by blast
  then show "\<exists>ex. session = Executor ex \<and>
     invoke w session st input =
       with_memory (AgentExecutor_invoke w ex) (Some MEMORY_ref) st (PDict input)"
    by simp
next
  assume "strategy = ''plan-and-solve''"
  with load_agent_session(1) [OF assms] obtain self where
    s: "session = Wrapper self" and m: "pe_memory (plan_and_execute self) = Some MEMORY_ref"
    by blast
  show "\<exists>self. session = Wrapper self \<and>
      (\<forall>result st'.
         with_memory (PlanAndExecute_invoke w (plan_and_execute self)) (Some MEMORY_ref) st
           [(''input'', dict_get input ''input'' (PStr []))] = (Inr result, st') \<longrightarrow>
         (\<forall>v. map_of result ''output'' = Some v \<and> truthy v \<longrightarrow>
            fst (invoke w session st input) =
              Inr [(''output'', v),
                   (''intermediate_steps'', dict_get result ''intermediate_steps'' (PList []))])
       \<and> (map_of result ''output'' = None \<and> map_of result ''intermediate_steps'' = None \<longrightarrow>
            fst (invoke w session st input) =
              Inr [(''output'', PStr fallback_output), (''intermediate_steps'', PList [])])
       \<and> (\<forall>steps. map_of result ''output'' = None \<and>
            map_of result ''intermediate_steps'' = Some (PList steps) \<and>
            (\<forall>step \<in> set steps. \<not> has_response step) \<longrightarrow>
            fst (invoke w session st input) =
              Inr [(''output'', PStr fallback_output), (''intermediate_steps'', PList steps)]))"
  proof (intro exI [of _ self] conjI allI impI s)
    fix result st' v
    assume r: "with_memory (PlanAndExecute_invoke w (plan_and_execute self)) (Some MEMORY_ref) st
           [(''input'', dict_get input ''input'' (PStr []))] = (Inr result, st')"
      and "map_of result ''output'' = Some v \<and> truthy v"
    then show "fst (invoke w session st input) =
              Inr [(''output'', v),
                   (''intermediate_steps'', dict_get result ''intermediate_steps'' (PList []))]"
      using PlanAndExecuteWrapper_invoke_output(1) [of w self st input result st' v] s m by simp
  next
    fix result st'
    assume r: "with_memory (PlanAndExecute_invoke w (plan_and_execute self)) (Some MEMORY_ref) st
           [(''input'', dict_get input ''input'' (PStr []))] = (Inr result, st')"
      and "map_of result ''output'' = None \<and> map_of result ''intermediate_steps'' = None"
    then show "fst (invoke w session st input) =
              Inr [(''output'', PStr fallback_output), (''intermediate_steps'', PList [])]"
      using PlanAndExecuteWrapper_invoke_output(2) [of w self st input result st'] s m by simp
  next
    fix result st' steps
    assume r: "with_memory (PlanAndExecute_invoke w (plan_and_execute self)) (Some MEMORY_ref) st
           [(''input'', dict_get input ''input'' (PStr []))] = (Inr result, st')"
      and "map_of result ''output'' = None \<and>
            map_of result ''intermediate_steps'' = Some (PList steps) \<and>
            (\<forall>step \<in> set steps. \<not> has_response step)"
    then show "fst (invoke w session st input) =
              Inr [(''output'', PStr fallback_output), (''intermediate_steps'', PList steps)]"
      using PlanAndExecuteWrapper_invoke_output(3) [of w self st input result st' steps] s m
      by simp
  qed
next
  show "fallback_output \<noteq> []" by (rule fallback_output_nonempty)
qed

theorem load_agent_invoke_output_witness:
  "fst (invoke sample_world
      (projr (snd (load_agent sample_world [''wikipedia''] ''plan-and-solve'' ''gpt-4'')))
      initial_state [(''input'', PStr ''2+2'')]) =
     Inr [(''output'', PStr ''4''), (''intermediate_steps'', PList [])]
   \<and> fst (invoke sample_world
      (projr (snd (load_agent sample_world [''wikipedia''] ''plan-and-solve'' ''gpt-4'')))
      initial_state [(''input'', PStr ''say nothing'')]) =
     Inr [(''output'', PStr fallback_output), (''intermediate_steps'', PList [])]"
proof -
  let ?self = "\<lparr>planner = Planner 0, executor = StepExecutor 0,
       plan_and_execute = \<lparr>pe_planner = Planner 0, pe_executor = StepExecutor 0,
         pe_verbose = True, pe_memory = Some MEMORY_ref\<rparr>\<rparr>"
  have run1: "with_memory (PlanAndExecute_invoke sample_world (plan_and_execute ?self))
      (Some MEMORY_ref) initial_state
      [(''input'', dict_get [(''input'', PStr ''2+2'')] ''input'' (PStr []))] =
     (Inr [(''input'', PStr ''2+2''), (''output'', PStr ''4'')],
      initial_state\<lparr>MEMORY := (MEMORY initial_state)\<lparr>chat_memory :=
        [(''human'', ''a question''), (''ai'', ''an answer'')]\<rparr>\<rparr>)"
    by (simp add: with_memory_def dict_get_def sample_world_def initial_state_def init_memory_def)
  have run2: "with_memory (PlanAndExecute_invoke sample_world (plan_and_execute ?self))
      (Some MEMORY_ref) initial_state
      [(''input'', dict_get [(''input'', PStr ''say nothing'')] ''input'' (PStr []))] =
     (Inr [(''input'', PStr ''say nothing'')],
      initial_state\<lparr>MEMORY := (MEMORY initial_state)\<lparr>chat_memory :=
        [(''human'', ''a question''), (''ai'', ''an answer'')]\<rparr>\<rparr>)"
    by (simp add: with_memory_def dict_get_def sample_world_def initial_state_def init_memory_def)
  from load_agent_invoke_output [OF load_agent_sample_plan, of initial_state
      "[(''input'', PStr ''2+2'')]"] run1
  have "fst (invoke sample_world (Wrapper ?self) initial_state [(''input'', PStr ''2+2'')]) =
     Inr [(''output'', PStr ''4''), (''intermediate_steps'', PList [])]"
    by (simp add: dict_get_def)
  moreover
  from load_agent_invoke_output [OF load_agent_sample_plan, of initial_state
      "[(''input'', PStr ''say nothing'')]"] run2
  have "fst (invoke sample_world (Wrapper ?self) initial_state [(''input'', PStr ''say nothing'')]) =
     Inr [(''output'', PStr fallback_output), (''intermediate_steps'', PList [])]"
    by simp
  ultimately show ?thesis
    by (simp only: load_agent_sample_plan sum.sel simp_thms)
qed

text \<open>
  Claim C5, evaluated on the code. In the sample world, under \<^verbatim>\<open>plan-and-solve\<close>: when the
  executor returns an empty output and no steps, the session returns the empty output, not
  the fallback text; when every step has an empty response, it returns the empty response,
  not the fallback text; when the last step has an empty response and an earlier one the
  response \<^verbatim>\<open>Paris\<close>, it returns the empty response, not \<^verbatim>\<open>Paris\<close>.
\<close>

theorem plan_and_execute_empty_output:
  "fst (invoke sample_world
      (projr (snd (load_agent sample_world [''wikipedia''] ''plan-and-solve'' ''gpt-4'')))
      initial_state [(''input'', PStr ''answer nothing'')]) =
     Inr [(''output'', PStr []), (''intermediate_steps'', PList [])]
   \<and> fst (invoke sample_world
      (projr (snd (load_agent sample_world [''wikipedia''] ''plan-and-solve'' ''gpt-4'')))
      initial_state [(''input'', PStr ''hello'')]) =
     Inr [(''output'', PStr []),
          (''intermediate_steps'', PList [PDict [(''response'', PStr [])]])]
   \<and> fst (invoke sample_world
      (projr (snd (load_agent sample_world [''wikipedia''] ''plan-and-solve'' ''gpt-4'')))
      initial_state [(''input'', PStr ''capital of France?'')]) =
     Inr [(''output'', PStr []),
          (''intermediate_steps'',
           PList [PDict [(''response'', PStr ''Paris'')], PDict [(''response'', PStr [])]])]"
  by (simp only: load_agent_sample_plan sum.sel) (simp add: invoke_sample_defs)

section \<open>Properties of the history-clear action\<close>

lemma with_memory_chat_memory:
  assumes "chat_memory (MEMORY st) = chat_memory (MEMORY st')"
  shows "fst (with_memory run mem st x) = fst (with_memory run mem st' x)"
    and "chat_memory (MEMORY (snd (with_memory run mem st x))) =
         chat_memory (MEMORY (snd (with_memory run mem st' x)))"
  using assms by (auto simp: with_memory_def split: option.splits memory_ref.splits prod.splits)

lemma invoke_chat_memory:
  assumes "chat_memory (MEMORY st) = chat_memory (MEMORY st')"
  shows "fst (invoke w session st input) = fst (invoke w session st' input)"
    and "chat_memory (MEMORY (snd (invoke w session st input))) =
         chat_memory (MEMORY (snd (invoke w session st' input)))"
proof -
  have "fst (invoke w session st input) = fst (invoke w session st' input) \<and>
    chat_memory (MEMORY (snd (invoke w session st input))) =
         chat_memory (MEMORY (snd (invoke w session st' input)))"
  proof (cases session)
    case (Executor ex)
    then show ?thesis
      using with_memory_chat_memory
        [OF assms, of "AgentExecutor_invoke w ex" "memory ex" "PDict input"]
      by simp
  next
    case (Wrapper self)
    let ?run = "with_memory (PlanAndExecute_invoke w (plan_and_execute self))
                (pe_memory (plan_and_execute self))"
    let ?x = "[(''input'', dict_get input ''input'' (PStr []))]"
    have a: "fst (?run st ?x) = fst (?run st' ?x)"
      and b: "chat_memory (MEMORY (snd (?run st ?x))) = chat_memory (MEMORY (snd (?run st' ?x)))"
      using with_memory_chat_memory [OF assms, of "PlanAndExecute_invoke w (plan_and_execute self)"
        "pe_memory (plan_and_execute self)" ?x] by simp_all
    obtain r s where rs: "?run st ?x = (r, s)" by (cases "?run st ?x")
    obtain r' s' where rs': "?run st' ?x = (r', s')" by (cases "?run st' ?x")
    from a b rs rs' have "r = r'" "chat_memory (MEMORY s) = chat_memory (MEMORY s')" by simp_all
    then show ?thesis
      using Wrapper rs rs'
      by (simp add: PlanAndExecuteWrapper_invoke_def Let_def split: sum.splits option.splits)
  qed
  then show "fst (invoke w session st input) = fst (invoke w session st' input)"
    and "chat_memory (MEMORY (snd (invoke w session st input))) =
         chat_memory (MEMORY (snd (invoke w session st' input)))" by simp_all
qed

lemma with_memory_cleared:
  "fst (with_memory run mem (chat_memory_clear st) x) = fst (run [] x)"
  by (auto simp: with_memory_def chat_memory_clear_def
      split: option.splits memory_ref.splits prod.splits)

lemma PlanAndExecuteWrapper_invoke_returns:
  assumes "fst (with_memory (PlanAndExecute_invoke w (plan_and_execute self))
             (pe_memory (plan_and_execute self)) st
             [(''input'', dict_get input ''input'' (PStr []))]) = Inr result"
    and "(\<exists>v. map_of result ''output'' = Some v \<and> truthy v) \<or>
         (case map_of result ''intermediate_steps'' of
            None \<Rightarrow> True | Some steps \<Rightarrow> \<not> isl (reversed steps))"
  shows "\<exists>out steps. fst (PlanAndExecuteWrapper_invoke w self st input) =
           Inr [(''output'', out), (''intermediate_steps'', steps)]"
proof -
  obtain r st' where rs: "with_memory (PlanAndExecute_invoke w (plan_and_execute self))
             (pe_memory (plan_and_execute self)) st
             [(''input'', dict_get input ''input'' (PStr []))] = (r, st')"
    by (cases "with_memory (PlanAndExecute_invoke w (plan_and_execute self))
             (pe_memory (plan_and_execute self)) st
             [(''input'', dict_get input ''input'' (PStr []))]")
  with assms(1) have r: "r = Inr result" by simp
  show ?thesis
    using assms(2) rs r
    by (auto simp: PlanAndExecuteWrapper_invoke_def Let_def
        split: option.splits sum.splits)
qed

lemma load_agent_sample_executor:
  "snd (load_agent sample_world [''wikipedia''] ''zero-shot-react'' ''gpt-4'') =
     Inr (Executor \<lparr>agent = RunnableAgent 1,
       tools = [\<lparr>name = ''wikipedia'', description = ''Search Wikipedia'',
                 func = (\<lambda>q. Inr (PStr ''No good Wikipedia Search Result was found''))\<rparr>],
       handle_parsing_errors = True, max_iterations = Some 15,
       early_stopping_method = Some ''generate'', verbose = Some True,
       memory = Some MEMORY_ref\<rparr>)"
  by (simp add: load_agent_def create_llm_def load_tools_defs sample_world_def)

text \<open>
  Claim C8. Clearing the shared memory leaves no message in it and changes nothing else
  of it. A session is a value apart from the state and is not touched; invoked after the
  clearing, it gives the outcome and leaves the messages that it gives when invoked in the
  initial state of the program, where the memory is empty. The invocation after the
  clearing succeeds without a rebuild: a session that is the framework's executor returns
  the result that the executor returns on the empty history, and a session that is the
  wrapper returns an output with the steps whenever the plan-and-execute chain returns a
  result on the empty history whose output is non-empty or whose steps, if any, can be
  reversed.
\<close>

theorem clear_keeps_session:
  "chat_memory (MEMORY (chat_memory_clear st)) = []
   \<and> memory_key (MEMORY (chat_memory_clear st)) = memory_key (MEMORY st)
   \<and> return_messages (MEMORY (chat_memory_clear st)) = return_messages (MEMORY st)
   \<and> output_key (MEMORY (chat_memory_clear st)) = output_key (MEMORY st)
   \<and> fst (invoke w session (chat_memory_clear st) input) = fst (invoke w session initial_state input)
   \<and> chat_memory (MEMORY (snd (invoke w session (chat_memory_clear st) input))) =
       chat_memory (MEMORY (snd (invoke w session initial_state input)))
   \<and> (\<forall>ex r. session = Executor ex \<and>
         fst (AgentExecutor_invoke w ex [] (PDict input)) = Inr r \<longrightarrow>
         fst (invoke w session (chat_memory_clear st) input) = Inr r)
   \<and> (\<forall>self result. session = Wrapper self \<and>
         fst (PlanAndExecute_invoke w (plan_and_execute self) []
                [(''input'', dict_get input ''input'' (PStr []))]) = Inr result \<and>
         ((\<exists>v. map_of result ''output'' = Some v \<and> truthy v) \<or>
          (case map_of result ''intermediate_steps'' of
             None \<Rightarrow> True | Some steps \<Rightarrow> \<not> isl (reversed steps))) \<longrightarrow>
         (\<exists>out steps. fst (invoke w session (chat_memory_clear st) input) =
            Inr [(''output'', out), (''intermediate_steps'', steps)]))"
proof -
  have "chat_memory (MEMORY (chat_memory_clear st)) = chat_memory (MEMORY initial_state)"
    by (simp add: chat_memory_clear_def initial_state_def init_memory_def)
  from invoke_chat_memory [OF this, of w session input]
  have frame: "chat_memory (MEMORY (chat_memory_clear st)) = []
   \<and> memory_key (MEMORY (chat_memory_clear st)) = memory_key (MEMORY st)
   \<and> return_messages (MEMORY (chat_memory_clear st)) = return_messages (MEMORY st)
   \<and> output_key (MEMORY (chat_memory_clear st)) = output_key (MEMORY st)
   \<and> fst (invoke w session (chat_memory_clear st) input) = fst (invoke w session initial_state input)
   \<and> chat_memory (MEMORY (snd (invoke w session (chat_memory_clear st) input))) =
       chat_memory (MEMORY (snd (invoke w session initial_state input)))"
    by (simp add: chat_memory_clear_def)
  have ex: "\<forall>ex r. session = Executor ex \<and>
         fst (AgentExecutor_invoke w ex [] (PDict input)) = Inr r \<longrightarrow>
         fst (invoke w session (chat_memory_clear st) input) = Inr r"
    by (auto simp: with_memory_cleared)
  have wr: "\<forall>self result. session = Wrapper self \<and>
         fst (PlanAndExecute_invoke w (plan_and_execute self) []
                [(''input'', dict_get input ''input'' (PStr []))]) = Inr result \<and>
         ((\<exists>v. map_of result ''output'' = Some v \<and> truthy v) \<or>
          (case map_of result ''intermediate_steps'' of
             None \<Rightarrow> True | Some steps \<Rightarrow> \<not> isl (reversed steps))) \<longrightarrow>
         (\<exists>out steps. fst (invoke w session (chat_memory_clear st) input) =
            Inr [(''output'', out), (''intermediate_steps'', steps)])"
  proof (intro allI impI, elim conjE)
    fix self result
    assume s: "session = Wrapper self"
      and r: "fst (PlanAndExecute_invoke w (plan_and_execute self) []
                [(''input'', dict_get input ''input'' (PStr []))]) = Inr result"
      and c: "(\<exists>v. map_of result ''output'' = Some v \<and> truthy v) \<or>
          (case map_of result ''intermediate_steps'' of
             None \<Rightarrow> True | Some steps \<Rightarrow> \<not> isl (reversed steps))"
    from r have "fst (with_memory (PlanAndExecute_invoke w (plan_and_execute self))
             (pe_memory (plan_and_execute self)) (chat_memory_clear st)
             [(''input'', dict_get input ''input'' (PStr []))]) = Inr result"
      by (simp add: with_memory_cleared)
    from PlanAndExecuteWrapper_invoke_returns [OF this c] s
    show "\<exists>out steps. fst (invoke w session (chat_memory_clear st) input) =
            Inr [(''output'', out), (''intermediate_steps'', steps)]"
      by simp
  qed
  from frame ex wr show ?thesis by (intro conjI) simp_all
qed

theorem clear_keeps_session_witness:
  "chat_memory (MEMORY (snd (invoke sample_world
      (projr (snd (load_agent sample_world [''wikipedia''] ''zero-shot-react'' ''gpt-4'')))
      initial_state [(''input'', PStr ''2+2'')]))) =
     [(''human'', ''a question''), (''ai'', ''an answer'')]
   \<and> fst (invoke sample_world
      (projr (snd (load_agent sample_world [''wikipedia''] ''zero-shot-react'' ''gpt-4'')))
      (chat_memory_clear (snd (invoke sample_world
         (projr (snd (load_agent sample_world [''wikipedia''] ''zero-shot-react'' ''gpt-4'')))
         initial_state [(''input'', PStr ''2+2'')])))
      [(''input'', PStr ''2+2'')]) =
     Inr [(''input'', PDict [(''input'', PStr ''2+2'')]), (''output'', PStr ''4'')]
   \<and> fst (invoke sample_world
      (projr (snd (load_agent sample_world [''wikipedia''] ''plan-and-solve'' ''gpt-4'')))
      (chat_memory_clear (snd (invoke sample_world
         (projr (snd (load_agent sample_world [''wikipedia''] ''plan-and-solve'' ''gpt-4'')))
         initial_state [(''input'', PStr ''2+2'')])))
      [(''input'', PStr ''2+2'')]) =
     Inr [(''output'', PStr ''4''), (''intermediate_steps'', PList [])]"
proof -
  let ?ex = "\<lparr>agent = RunnableAgent 1,
       tools = [\<lparr>name = ''wikipedia'', description = ''Search Wikipedia'',
                 func = (\<lambda>q. Inr (PStr ''No good Wikipedia Search Result was found''))\<rparr>],
       handle_parsing_errors = True, max_iterations = Some 15,
       early_stopping_method = Some ''generate'', verbose = Some True,
       memory = Some MEMORY_ref\<rparr>"
  let ?self = "\<lparr>planner = Planner 0, executor = StepExecutor 0,
       plan_and_execute = \<lparr>pe_planner = Planner 0, pe_executor = StepExecutor 0,
         pe_verbose = True, pe_memory = Some MEMORY_ref\<rparr>\<rparr>"
  let ?I = "[(''input'', PStr ''2+2'')]"
  let ?st1 = "snd (invoke sample_world (Executor ?ex) initial_state ?I)"
  let ?st2 = "snd (invoke sample_world (Wrapper ?self) initial_state ?I)"
  have m: "chat_memory (MEMORY ?st1) = [(''human'', ''a question''), (''ai'', ''an answer'')]"
    by (simp add: with_memory_def sample_world_def initial_state_def init_memory_def)
  have h: "fst (AgentExecutor_invoke sample_world ?ex [] (PDict ?I)) =
      Inr [(''input'', PDict [(''input'', PStr ''2+2'')]), (''output'', PStr ''4'')]"
    by (simp add: sample_world_def)
  from clear_keeps_session [of ?st1 sample_world "Executor ?ex" ?I] h
  have a: "fst (invoke sample_world (Executor ?ex) (chat_memory_clear ?st1) ?I) =
      Inr [(''input'', PDict [(''input'', PStr ''2+2'')]), (''output'', PStr ''4'')]"
    by blast
  have h2: "fst (PlanAndExecute_invoke sample_world (plan_and_execute ?self) []
      [(''input'', dict_get ?I ''input'' (PStr []))]) =
      Inr [(''input'', PStr ''2+2''), (''output'', PStr ''4'')]"
    by (simp add: sample_world_def dict_get_def)
  have h3: "(\<exists>v. map_of [(''input'', PStr ''2+2''), (''output'', PStr ''4'')] ''output'' = Some v \<and>
      truthy v) \<or>
      (case map_of [(''input'', PStr ''2+2''), (''output'', PStr ''4'')] ''intermediate_steps'' of
         None \<Rightarrow> True | Some steps \<Rightarrow> \<not> isl (reversed steps))"
    by simp
  from clear_keeps_session [of ?st2 sample_world "Wrapper ?self" ?I] h2 h3
  have "\<exists>out steps. fst (invoke sample_world (Wrapper ?self) (chat_memory_clear ?st2) ?I) =
      Inr [(''output'', out), (''intermediate_steps'', steps)]"
    by blast
  then have b: "fst (invoke sample_world (Wrapper ?self) (chat_memory_clear ?st2) ?I) =
      Inr [(''output'', PStr ''4''), (''intermediate_steps'', PList [])]"
    by (simp add: invoke_sample_defs chat_memory_clear_def)
  from m a b show ?thesis
    by (simp only: load_agent_sample_executor load_agent_sample_plan sum.sel simp_thms)
qed

end
